theory Spec2Isabelle
  imports Main
begin

section \<open>JavaScript values and strings\<close>

text \<open>
  The library is TypeScript running on a JavaScript engine.  Strings are modelled as
  Isabelle strings, that is, as sequences of code units below 256.  The numbers that the
  modelled code computes are the results of \<open>parseInt\<close>, integers or \<open>NaN\<close> (exact as
  doubles below \<open>2^53\<close>), and the colour distances below.
\<close>

datatype jsnum = NaN | Num int

text \<open>
  A colour distance is \<open>Infinity\<close>, \<open>NaN\<close> or \<open>Math.sqrt(n)\<close> for a natural number \<open>n\<close> below
  \<open>2^18\<close> (a sum of three squares of differences of two-digit hexadecimal numbers).  The
  code only ever compares two distances with \<open><\<close>, so \<open>Math.sqrt(n)\<close> is kept as \<open>Sqrt n\<close>:
  the square root is strictly increasing, and so is its rounding to a double on numbers
  of this size.  A comparison with \<open>NaN\<close> on either side is false.
\<close>

datatype distance = Infinity | NaN_distance | Sqrt int

fun js_less :: "distance \<Rightarrow> distance \<Rightarrow> bool" where
  "js_less (Sqrt a) (Sqrt b) = (a < b)"
| "js_less (Sqrt a) Infinity = True"
| "js_less _ _ = False"

text \<open>
  A property value as the normaliser reads it.  \<open>JNum n\<close> is the integer \<open>n\<close> as a number,
  \<open>JSymbol\<close> any symbol.  \<open>JObject\<close> is an object, kept with what its conversion to a
  string does (\<open>ToPrimitive\<close> with the hint \<open>string\<close>, through \<open>toString\<close> and \<open>valueOf\<close>):
  it returns a string, \<open>[object Object]\<close> for a plain object and the joined elements for an
  array, or it throws an error with the given message, as for an object without a
  prototype, which has neither method.
\<close>

datatype conversion = Converts string | Raises string

datatype js_val =
  JUndefined | JNull | JBool bool | JNum int | JStr string | JSymbol | JObject conversion

fun truthy :: "js_val \<Rightarrow> bool" where
  "truthy JUndefined = False"
| "truthy JNull = False"
| "truthy (JBool b) = b"
| "truthy (JNum n) = (n \<noteq> 0)"
| "truthy (JStr s) = (s \<noteq> [])"
| "truthy JSymbol = True"
| "truthy (JObject c) = True"

text \<open>The operator \<open>a || b\<close>.\<close>

definition js_or :: "js_val \<Rightarrow> js_val \<Rightarrow> js_val" where
  "js_or a b = (if truthy a then a else b)"

text \<open>White space of \<open>String.prototype.trim\<close>, of \<open>\s\<close> and of \<open>parseInt\<close>
  (tab, line feed, vertical tab, form feed, carriage return, space, no-break space),
  and the line terminators that \<open>.\<close> does not match.\<close>

definition is_space :: "char \<Rightarrow> bool" where
  "is_space c = (of_char c \<in> {9, 10, 11, 12, 13, 32, 160 :: nat})"

definition line_terminator :: "char \<Rightarrow> bool" where
  "line_terminator c = (of_char c \<in> {10, 13 :: nat})"

definition trim :: "string \<Rightarrow> string" where
  "trim s = rev (dropWhile is_space (rev (dropWhile is_space s)))"

text \<open>\<open>String.prototype.toLowerCase\<close> on code units below 256 changes the letters A to Z and
  the capital letters of Latin-1 (0xC0 to 0xDE, without the multiplication sign 0xD7),
  each to the code unit 32 above it.\<close>

definition upper_letters :: string where
  "upper_letters =
     ''ABCDEFGHIJKLMNOPQRSTUVWXYZ''
     @ [CHR 0xC0, CHR 0xC1, CHR 0xC2, CHR 0xC3, CHR 0xC4, CHR 0xC5, CHR 0xC6, CHR 0xC7,
        CHR 0xC8, CHR 0xC9, CHR 0xCA, CHR 0xCB, CHR 0xCC, CHR 0xCD, CHR 0xCE, CHR 0xCF,
        CHR 0xD0, CHR 0xD1, CHR 0xD2, CHR 0xD3, CHR 0xD4, CHR 0xD5, CHR 0xD6,
        CHR 0xD8, CHR 0xD9, CHR 0xDA, CHR 0xDB, CHR 0xDC, CHR 0xDD, CHR 0xDE]"

definition lower_letters :: string where
  "lower_letters =
     ''abcdefghijklmnopqrstuvwxyz''
     @ [CHR 0xE0, CHR 0xE1, CHR 0xE2, CHR 0xE3, CHR 0xE4, CHR 0xE5, CHR 0xE6, CHR 0xE7,
        CHR 0xE8, CHR 0xE9, CHR 0xEA, CHR 0xEB, CHR 0xEC, CHR 0xED, CHR 0xEE, CHR 0xEF,
        CHR 0xF0, CHR 0xF1, CHR 0xF2, CHR 0xF3, CHR 0xF4, CHR 0xF5, CHR 0xF6,
        CHR 0xF8, CHR 0xF9, CHR 0xFA, CHR 0xFB, CHR 0xFC, CHR 0xFD, CHR 0xFE]"

definition lower_char :: "char \<Rightarrow> char" where
  "lower_char c =
     (case map_of (zip upper_letters lower_letters) c of None \<Rightarrow> c | Some l \<Rightarrow> l)"

definition toLowerCase :: "string \<Rightarrow> string" where
  "toLowerCase s = map lower_char s"

definition startsWith :: "string \<Rightarrow> string \<Rightarrow> bool" where
  "startsWith s p = (take (length p) s = p)"

text \<open>\<open>xs.join(sep)\<close>.\<close>

fun join :: "string \<Rightarrow> string list \<Rightarrow> string" where
  "join sep [] = []"
| "join sep [x] = x"
| "join sep (x # y # ys) = x @ sep @ join sep (y # ys)"

subsection \<open>parseInt\<close>

definition digit_val :: "char \<Rightarrow> nat option" where
  "digit_val c =
     (let n = of_char c :: nat
      in if 48 \<le> n \<and> n \<le> 57 then Some (n - 48)
         else if 97 \<le> n \<and> n \<le> 122 then Some (n - 87)
         else if 65 \<le> n \<and> n \<le> 90 then Some (n - 55)
         else None)"

definition is_digit :: "nat \<Rightarrow> char \<Rightarrow> bool" where
  "is_digit radix c = (case digit_val c of None \<Rightarrow> False | Some d \<Rightarrow> d < radix)"

definition digits_value :: "nat \<Rightarrow> string \<Rightarrow> nat" where
  "digits_value radix ds = foldl (\<lambda>acc c. acc * radix + the (digit_val c)) 0 ds"

text \<open>\<open>parseInt(s, radix)\<close> for a radix that is absent (\<open>None\<close>) or 16: leading white space
  is skipped, a sign is read, a \<open>0x\<close> prefix is skipped (and selects radix 16 when the radix
  is absent), and the longest run of digits is the value; no digit gives \<open>NaN\<close>.\<close>

definition parseInt :: "string \<Rightarrow> nat option \<Rightarrow> jsnum" where
  "parseInt s radix =
     (let s1 = dropWhile is_space s;
          neg = (s1 \<noteq> [] \<and> hd s1 = CHR ''-'');
          s2 = (if s1 \<noteq> [] \<and> (hd s1 = CHR ''-'' \<or> hd s1 = CHR ''+'') then tl s1 else s1);
          hex = (take 2 s2 = ''0x'' \<or> take 2 s2 = ''0X'');
          r = (case radix of None \<Rightarrow> (if hex then 16 else 10) | Some k \<Rightarrow> k);
          s3 = (if hex \<and> r = 16 then drop 2 s2 else s2);
          ds = takeWhile (is_digit r) s3
      in if ds = [] then NaN
         else Num ((if neg then - 1 else 1) * int (digits_value r ds)))"

text \<open>Decimal rendering of a natural number, as string concatenation renders the result
  of \<open>Date.now()\<close>.\<close>

fun show_nat :: "nat \<Rightarrow> string" where
  "show_nat n =
     (if n < 10 then [''0123456789'' ! n]
      else show_nat (n div 10) @ [''0123456789'' ! (n mod 10)])"

declare show_nat.simps [simp del]

text \<open>\<open>ToString(v)\<close>, which \<open>parseInt\<close>, a template string and the constructor of \<open>Error\<close>
  apply to their argument: \<open>Inr\<close> the string, \<open>Inl\<close> the message of the error that the
  conversion throws (for a symbol a \<open>TypeError\<close>; the text is V8's).  A number is
  rendered in decimal, as the engine renders an integer below \<open>10^21\<close> in magnitude.\<close>

fun to_string :: "js_val \<Rightarrow> string + string" where
  "to_string JUndefined = Inr ''undefined''"
| "to_string JNull = Inr ''null''"
| "to_string (JBool b) = Inr (if b then ''true'' else ''false'')"
| "to_string (JNum n) = Inr (if n < 0 then CHR ''-'' # show_nat (nat (- n)) else show_nat (nat n))"
| "to_string (JStr s) = Inr s"
| "to_string JSymbol = Inl ''Cannot convert a Symbol value to a string''"
| "to_string (JObject (Converts s)) = Inr s"
| "to_string (JObject (Raises m)) = Inl m"

text \<open>Whether \<open>ToString(v)\<close> returns.\<close>

definition stringifiable :: "js_val \<Rightarrow> bool" where
  "stringifiable v = (case to_string v of Inl m \<Rightarrow> False | Inr s \<Rightarrow> True)"

text \<open>\<open>s.split(c)\<close> for a one-character separator.\<close>

fun split_on :: "char \<Rightarrow> string \<Rightarrow> string list" where
  "split_on c [] = [[]]"
| "split_on c (x # xs) =
     (if x = c then [] # split_on c xs
      else (case split_on c xs of [] \<Rightarrow> [[x]] | h # t \<Rightarrow> (x # h) # t))"

text \<open>\<open>s.slice(a, b)\<close> for \<open>0 \<le> a \<le> b\<close>.\<close>

definition slice :: "nat \<Rightarrow> nat \<Rightarrow> string \<Rightarrow> string" where
  "slice a b s = take (b - a) (drop a s)"

subsection \<open>Promises with an explicit backend state\<close>

text \<open>
  An asynchronous operation is a function from the state of the backend to its outcome
  (\<open>Inl\<close> the rejection, \<open>Inr\<close> the value) and the state after it.  \<open>await\<close> sequences
  two of them; a rejection skips the continuation.
\<close>

definition resolve :: "'a \<Rightarrow> 's \<Rightarrow> ('e + 'a) \<times> 's" where
  "resolve v s = (Inr v, s)"

definition reject :: "'e \<Rightarrow> 's \<Rightarrow> ('e + 'a) \<times> 's" where
  "reject e s = (Inl e, s)"

definition await ::
  "('s \<Rightarrow> ('e + 'a) \<times> 's) \<Rightarrow> ('a \<Rightarrow> 's \<Rightarrow> ('e + 'b) \<times> 's) \<Rightarrow> 's \<Rightarrow> ('e + 'b) \<times> 's" where
  "await m k s = (case m s of (Inl e, s') \<Rightarrow> (Inl e, s') | (Inr v, s') \<Rightarrow> k v s')"

section \<open>Error taxonomy\<close>

datatype ErrorCode =
    AUTH_FAILED | TOKEN_EXPIRED | INVALID_CREDENTIALS
  | RATE_LIMIT_EXCEEDED | QUOTA_EXCEEDED
  | NOT_FOUND | INVALID_EMAIL_ID
  | SEND_FAILED | OPERATION_FAILED
  | NETWORK_ERROR | TIMEOUT
  | INVALID_INPUT | MISSING_REQUIRED_FIELD
  | UNKNOWN_ERROR

text \<open>The string value of each member of the enum.\<close>

fun ErrorCode_value :: "ErrorCode \<Rightarrow> string" where
  "ErrorCode_value AUTH_FAILED = ''AUTH_FAILED''"
| "ErrorCode_value TOKEN_EXPIRED = ''TOKEN_EXPIRED''"
| "ErrorCode_value INVALID_CREDENTIALS = ''INVALID_CREDENTIALS''"
| "ErrorCode_value RATE_LIMIT_EXCEEDED = ''RATE_LIMIT_EXCEEDED''"
| "ErrorCode_value QUOTA_EXCEEDED = ''QUOTA_EXCEEDED''"
| "ErrorCode_value NOT_FOUND = ''NOT_FOUND''"
| "ErrorCode_value INVALID_EMAIL_ID = ''INVALID_EMAIL_ID''"
| "ErrorCode_value SEND_FAILED = ''SEND_FAILED''"
| "ErrorCode_value OPERATION_FAILED = ''OPERATION_FAILED''"
| "ErrorCode_value NETWORK_ERROR = ''NETWORK_ERROR''"
| "ErrorCode_value TIMEOUT = ''TIMEOUT''"
| "ErrorCode_value INVALID_INPUT = ''INVALID_INPUT''"
| "ErrorCode_value MISSING_REQUIRED_FIELD = ''MISSING_REQUIRED_FIELD''"
| "ErrorCode_value UNKNOWN_ERROR = ''UNKNOWN_ERROR''"

text \<open>
  A thrown object as \<open>normalizeError\<close> reads it: \<open>error.code\<close>, \<open>error.statusCode\<close>,
  \<open>error.message\<close>, \<open>error.response\<close> (with \<open>status\<close> and \<open>headers\<close>),
  \<open>error.body?.error?.code\<close> and \<open>error.headers\<close>.  A property that is absent is
  \<open>JUndefined\<close> or \<open>None\<close>; a headers object is the list of its entries.  The properties
  are data properties: reading one runs no code of the object.
\<close>

record http_response =
  status :: js_val
  response_headers :: "(string \<times> js_val) list option"

record raw_error =
  code :: js_val
  statusCode :: js_val
  message :: js_val
  response :: "http_response option"
  body_error_code :: js_val
  headers :: "(string \<times> js_val) list option"

text \<open>An object with a message and nothing else, as \<open>new Error(msg)\<close> makes it.\<close>

definition error_object :: "string \<Rightarrow> raw_error" where
  "error_object msg =
     \<lparr>code = JUndefined, statusCode = JUndefined, message = JStr msg, response = None,
      body_error_code = JUndefined, headers = None\<rparr>"

text \<open>
  What a \<open>catch\<close> block can receive: \<open>null\<close>, \<open>undefined\<close>, any other value seen through
  its properties, or an error of the library.  The classes \<open>SuperMailError\<close>,
  \<open>AuthenticationError\<close>, \<open>RateLimitError\<close> and \<open>NotFoundError\<close> differ in their \<open>name\<close>;
  all carry the kind, the message, the provider tag and the original failure, and
  \<open>RateLimitError\<close> carries \<open>retryAfter\<close>.
\<close>

datatype js_error =
    ThrownNull
  | ThrownUndefined
  | Thrown raw_error
  | Classified supermail_error
and supermail_error =
    SuperMailError (sm_name: string) (sm_code: ErrorCode) (sm_message: string)
      (sm_provider: "string option") (retryAfter: "jsnum option")
      (originalError: "js_error option")

definition AuthenticationError :: "string \<Rightarrow> string \<Rightarrow> js_error \<Rightarrow> supermail_error" where
  "AuthenticationError msg provider original =
     SuperMailError ''AuthenticationError'' AUTH_FAILED msg (Some provider) None (Some original)"

definition RateLimitError ::
  "string \<Rightarrow> string \<Rightarrow> jsnum option \<Rightarrow> js_error \<Rightarrow> supermail_error" where
  "RateLimitError msg provider retry original =
     SuperMailError ''RateLimitError'' RATE_LIMIT_EXCEEDED msg (Some provider) retry
       (Some original)"

definition NotFoundError :: "string \<Rightarrow> string \<Rightarrow> js_error \<Rightarrow> supermail_error" where
  "NotFoundError msg provider original =
     SuperMailError ''NotFoundError'' NOT_FOUND msg (Some provider) None (Some original)"

definition BaseError :: "ErrorCode \<Rightarrow> string \<Rightarrow> string \<Rightarrow> js_error \<Rightarrow> supermail_error" where
  "BaseError kind msg provider original =
     SuperMailError ''SuperMailError'' kind msg (Some provider) None (Some original)"

text \<open>The properties of a thrown value, \<open>None\<close> when reading any property of it throws
  a \<open>TypeError\<close> (\<open>null\<close> and \<open>undefined\<close>).  An error of the library has its kind as
  \<open>code\<close> and its message.\<close>

fun properties :: "js_error \<Rightarrow> raw_error option" where
  "properties ThrownNull = None"
| "properties ThrownUndefined = None"
| "properties (Thrown e) = Some e"
| "properties (Classified e) =
     Some ((error_object (sm_message e))\<lparr>code := JStr (ErrorCode_value (sm_code e))\<rparr>)"

text \<open>The \<open>TypeError\<close> of the engine for a property read on \<open>null\<close> or \<open>undefined\<close>
  (the text is V8's).\<close>

definition TypeError :: "js_error \<Rightarrow> string \<Rightarrow> js_error" where
  "TypeError v prop =
     Thrown (error_object (''Cannot read properties of ''
        @ (case v of ThrownNull \<Rightarrow> ''null'' | _ \<Rightarrow> ''undefined'')
        @ '' (reading '' @ [CHR 0x27] @ prop @ [CHR 0x27] @ '')''))"

text \<open>The outcome of a step that converts a value to a string: the error that the
  conversion throws leaves the function.\<close>

definition raised :: "string + 'a \<Rightarrow> js_error + 'a" where
  "raised r = (case r of Inl m \<Rightarrow> Inl (Thrown (error_object m)) | Inr v \<Rightarrow> Inr v)"

subsection \<open>normalizeError\<close>

text \<open>\<open>error.response?.status\<close>, and the \<open>retry-after\<close> header of either place,
  \<open>error.response?.headers?.['retry-after']\<close> and \<open>error.headers?.['retry-after']\<close>:
  \<open>undefined\<close> when the headers or the entry are absent.\<close>

definition response_status :: "raw_error \<Rightarrow> js_val" where
  "response_status e = (case response e of None \<Rightarrow> JUndefined | Some r \<Rightarrow> status r)"

definition property_of :: "(string \<times> js_val) list option \<Rightarrow> string \<Rightarrow> js_val" where
  "property_of h key =
     (case h of None \<Rightarrow> JUndefined
      | Some entries \<Rightarrow> (case map_of entries key of None \<Rightarrow> JUndefined | Some v \<Rightarrow> v))"

definition response_retry_after :: "raw_error \<Rightarrow> js_val" where
  "response_retry_after e =
     (case response e of None \<Rightarrow> JUndefined
      | Some r \<Rightarrow> property_of (response_headers r) ''retry-after'')"

definition headers_retry_after :: "raw_error \<Rightarrow> js_val" where
  "headers_retry_after e = property_of (headers e) ''retry-after''"

text \<open>\<open>retryAfter ? parseInt(retryAfter) : undefined\<close>: \<open>parseInt\<close> converts its argument to
  a string first, and \<open>Inl\<close> is the message of the error that this conversion throws.\<close>

definition retry_seconds :: "js_val \<Rightarrow> string + jsnum option" where
  "retry_seconds v =
     (if truthy v then
        (case to_string v of Inl m \<Rightarrow> Inl m | Inr s \<Rightarrow> Inr (Some (parseInt s None)))
      else Inr None)"

text \<open>The constants \<open>statusCode\<close> and \<open>errorCode\<close> of the two provider blocks.\<close>

definition gmail_status :: "raw_error \<Rightarrow> js_val" where
  "gmail_status e = js_or (code e) (response_status e)"

definition microsoft_status :: "raw_error \<Rightarrow> js_val" where
  "microsoft_status e = js_or (statusCode e) (code e)"

definition microsoft_code :: "raw_error \<Rightarrow> js_val" where
  "microsoft_code e = js_or (code e) (body_error_code e)"

text \<open>The block \<open>if (provider === 'gmail')\<close>: \<open>Some\<close> when one of its four branches is taken,
  \<open>Inr\<close> the error that the branch returns, \<open>Inl\<close> the error that \<open>parseInt\<close> throws.\<close>

definition gmail_rules ::
  "js_error \<Rightarrow> raw_error \<Rightarrow> string \<Rightarrow> (js_error + supermail_error) option" where
  "gmail_rules error e provider =
     (let statusCode = gmail_status e
      in if statusCode = JNum 401 then
           Some (Inr (AuthenticationError
             ''Gmail authentication failed. Token may be expired or invalid.'' provider error))
         else if statusCode = JNum 403 then
           Some (Inr (BaseError QUOTA_EXCEEDED
             ''Gmail quota exceeded or insufficient permissions.'' provider error))
         else if statusCode = JNum 404 then
           Some (Inr (NotFoundError ''Email not found in Gmail.'' provider error))
         else if statusCode = JNum 429 then
           Some (case raised (retry_seconds (response_retry_after e)) of
                   Inl t \<Rightarrow> Inl t
                 | Inr seconds \<Rightarrow>
                     Inr (RateLimitError ''Gmail rate limit exceeded.'' provider seconds error))
         else None)"

text \<open>The block \<open>if (provider === 'microsoft')\<close>.\<close>

definition microsoft_rules ::
  "js_error \<Rightarrow> raw_error \<Rightarrow> string \<Rightarrow> (js_error + supermail_error) option" where
  "microsoft_rules error e provider =
     (let statusCode = microsoft_status e;
          errorCode = microsoft_code e
      in if statusCode = JNum 401 \<or> errorCode = JStr ''InvalidAuthenticationToken'' then
           Some (Inr (AuthenticationError
             ''Microsoft authentication failed. Token may be expired or invalid.''
             provider error))
         else if statusCode = JNum 403 \<or> errorCode = JStr ''Forbidden'' then
           Some (Inr (BaseError QUOTA_EXCEEDED
             ''Microsoft insufficient permissions or quota exceeded.'' provider error))
         else if statusCode = JNum 404 \<or> errorCode = JStr ''ResourceNotFound'' then
           Some (Inr (NotFoundError ''Email not found in Microsoft.'' provider error))
         else if statusCode = JNum 429 \<or> errorCode = JStr ''TooManyRequests'' then
           Some (case raised (retry_seconds (headers_retry_after e)) of
                   Inl t \<Rightarrow> Inl t
                 | Inr seconds \<Rightarrow>
                     Inr (RateLimitError ''Microsoft rate limit exceeded.'' provider seconds
                            error))
         else None)"

text \<open>The connectivity rule and the fallback.  The template string converts the message
  whatever it is (an absent one is rendered \<open>undefined\<close>); the fallback converts it, in the
  constructor of \<open>Error\<close>, when \<open>||\<close> has not replaced it by the default text.\<close>

definition network_code :: "raw_error \<Rightarrow> bool" where
  "network_code e =
     (code e = JStr ''ECONNREFUSED'' \<or> code e = JStr ''ENOTFOUND'' \<or> code e = JStr ''ETIMEDOUT'')"

definition generic_rules ::
  "js_error \<Rightarrow> raw_error \<Rightarrow> string \<Rightarrow> js_error + supermail_error" where
  "generic_rules error e provider =
     (if network_code e then
        (case raised (to_string (message e)) of
           Inl t \<Rightarrow> Inl t
         | Inr m \<Rightarrow> Inr (BaseError NETWORK_ERROR (''Network error: '' @ m) provider error))
      else
        (case raised (if truthy (message e) then to_string (message e)
                      else Inr ''An unknown error occurred'') of
           Inl t \<Rightarrow> Inl t
         | Inr m \<Rightarrow> Inr (BaseError UNKNOWN_ERROR m provider error)))"

text \<open>\<open>normalizeError(error, provider)\<close>: \<open>Inr\<close> the classified error it returns, \<open>Inl\<close> the
  exception it throws.  The first property read is \<open>error.code\<close>, or \<open>error.statusCode\<close>
  under the tag \<open>microsoft\<close>.\<close>

definition normalizeError :: "js_error \<Rightarrow> string \<Rightarrow> js_error + supermail_error" where
  "normalizeError error provider =
     (case properties error of
        None \<Rightarrow>
          Inl (TypeError error (if provider = ''microsoft'' then ''statusCode'' else ''code''))
      | Some e \<Rightarrow>
          (case (if provider = ''gmail'' then gmail_rules error e provider else None) of
             Some r \<Rightarrow> r
           | None \<Rightarrow>
               (case (if provider = ''microsoft'' then microsoft_rules error e provider
                      else None) of
                  Some r \<Rightarrow> r
                | None \<Rightarrow> generic_rules error e provider)))"

text \<open>\<open>throw normalizeError(error, provider)\<close>: the value that leaves the \<open>catch\<close> block.\<close>

definition rethrow :: "js_error \<Rightarrow> string \<Rightarrow> js_error" where
  "rethrow error provider =
     (case normalizeError error provider of Inl t \<Rightarrow> t | Inr c \<Rightarrow> Classified c)"

text \<open>\<open>try { ... } catch (error) { throw normalizeError(error, provider) }\<close> around an
  asynchronous body.\<close>

definition try_catch ::
  "string \<Rightarrow> ('s \<Rightarrow> (js_error + 'a) \<times> 's) \<Rightarrow> 's \<Rightarrow> (js_error + 'a) \<times> 's" where
  "try_catch provider m s =
     (case m s of (Inl e, s') \<Rightarrow> (Inl (rethrow e provider), s') | (Inr v, s') \<Rightarrow> (Inr v, s'))"

text \<open>The kind of a rejection, \<open>None\<close> when it is not an error of the library.\<close>

definition thrown_kind :: "js_error \<Rightarrow> ErrorCode option" where
  "thrown_kind t = (case t of Classified c \<Rightarrow> Some (sm_code c) | _ \<Rightarrow> None)"

text \<open>The kind of the classified error that a call of \<open>normalizeError\<close> returned, \<open>None\<close>
  when the call threw.\<close>

definition normalized_kind :: "js_error + supermail_error \<Rightarrow> ErrorCode option" where
  "normalized_kind r = (case r of Inl t \<Rightarrow> None | Inr c \<Rightarrow> Some (sm_code c))"

definition normalized_retryAfter :: "js_error + supermail_error \<Rightarrow> jsnum option" where
  "normalized_retryAfter r = (case r of Inl t \<Rightarrow> None | Inr c \<Rightarrow> retryAfter c)"

definition normalized_message :: "js_error + supermail_error \<Rightarrow> string option" where
  "normalized_message r = (case r of Inl t \<Rightarrow> None | Inr c \<Rightarrow> Some (sm_message c))"

text \<open>Two simulated backend failures: an \<open>unauthorized\<close> response and a
  \<open>too many requests\<close> response with the header \<open>retry-after: 5\<close>, each with its status
  in every place where a client library puts one.\<close>

definition unauthorized_failure :: raw_error where
  "unauthorized_failure =
     \<lparr>code = JNum 401, statusCode = JNum 401, message = JStr ''Unauthorized'',
      response = Some \<lparr>status = JNum 401, response_headers = Some []\<rparr>,
      body_error_code = JUndefined, headers = Some []\<rparr>"

definition too_many_requests_failure :: raw_error where
  "too_many_requests_failure =
     \<lparr>code = JNum 429, statusCode = JNum 429, message = JStr ''Too Many Requests'',
      response = Some \<lparr>status = JNum 429,
                       response_headers = Some [(''retry-after'', JStr ''5'')]\<rparr>,
      body_error_code = JUndefined, headers = Some [(''retry-after'', JStr ''5'')]\<rparr>"

text \<open>Three values on which the normaliser converts a symbol to a string: as the
  message of a failure without status or code, as the message of a connection failure,
  and as the retry-after header of a \<open>too many requests\<close> response.\<close>

definition symbol_message_failure :: raw_error where
  "symbol_message_failure = (error_object [])\<lparr>message := JSymbol\<rparr>"

definition symbol_network_failure :: raw_error where
  "symbol_network_failure = symbol_message_failure\<lparr>code := JStr ''ECONNREFUSED''\<rparr>"

definition symbol_retry_failure :: raw_error where
  "symbol_retry_failure =
     too_many_requests_failure
       \<lparr>response := Some \<lparr>status = JNum 429,
                           response_headers = Some [(''retry-after'', JSymbol)]\<rparr>\<rparr>"

section \<open>Unified data model\<close>

text \<open>
  The interfaces of \<open>types.ts\<close>, an optional property as an \<open>option\<close>.  Of
  \<open>EmailMessage\<close> the properties \<open>body\<close>, \<open>htmlBody\<close>, \<open>attachments\<close> and \<open>date\<close> are left
  out: on the read path they come from MIME, base64 and \<open>Date\<close> helpers that are outside
  this development.
\<close>

record EmailAddress =
  email :: string
  name :: "string option"

datatype AttachmentContent = StringContent string | BufferContent string

record EmailAttachment =
  att_filename :: string
  att_content :: AttachmentContent
  att_contentType :: string
  att_size :: "nat option"

record EmailMessage =
  msg_id :: "string option"
  msg_threadId :: "string option"
  msg_subject :: string
  msg_from :: "EmailAddress option"
  msg_to :: "EmailAddress list"
  msg_cc :: "EmailAddress list option"
  msg_bcc :: "EmailAddress list option"
  msg_isRead :: "bool option"
  msg_labels :: "string list option"

record SendEmailOptions =
  so_subject :: string
  so_to :: "EmailAddress list"
  so_cc :: "EmailAddress list option"
  so_bcc :: "EmailAddress list option"
  so_body :: string
  so_htmlBody :: "string option"
  so_attachments :: "EmailAttachment list option"
  so_replyTo :: "EmailAddress option"

record ListEmailsOptions =
  lo_maxResults :: "nat option"
  lo_pageToken :: "string option"
  lo_labelIds :: "string list option"
  lo_query :: "string option"
  lo_unreadOnly :: "bool option"

record ListEmailsResponse =
  messages :: "EmailMessage list"
  nextPageToken :: "string option"
  totalCount :: "nat option"

record EmailFolder =
  folder_id :: string
  folder_name :: string
  folder_parentId :: "string option"
  folder_unreadCount :: "nat option"
  folder_totalCount :: "nat option"

record EmailLabel =
  label_id :: string
  label_name :: string
  label_color :: "string option"
  label_type :: "string option"

record MoveEmailOptions =
  move_emailId :: string
  move_folderId :: string

text \<open>\<open>AddLabelsOptions\<close> and \<open>RemoveLabelsOptions\<close> have the same two properties.\<close>

record LabelsOptions =
  lbl_emailId :: string
  lbl_labelIds :: "string list"

subsection \<open>Colour tables\<close>

text \<open>
  A colour table is an object literal: the list of its entries in source order, which is
  the order of \<open>Object.entries\<close>.  Reading \<open>table[key]\<close> finds an own entry, or else a
  member of \<open>Object.prototype\<close>; a key that went through \<open>toLowerCase\<close> can only name the
  members \<open>constructor\<close> and \<open>__proto__\<close>.  Both are objects, hence truthy.
\<close>

datatype 'v property = Own 'v | Inherited string | Absent

definition object_lookup :: "(string \<times> 'v) list \<Rightarrow> string \<Rightarrow> 'v property" where
  "object_lookup table key =
     (case map_of table key of
        Some v \<Rightarrow> Own v
      | None \<Rightarrow> if key = ''constructor'' \<or> key = ''__proto__'' then Inherited key else Absent)"

text \<open>What a colour conversion returns: a value of its table (or its default), or the
  prototype member that the exact-match test let through.\<close>

datatype 'v converted = Entry 'v | PrototypeMember string

type_synonym rgb = "jsnum \<times> jsnum \<times> jsnum"

definition hexToRgb :: "string \<Rightarrow> rgb" where
  "hexToRgb hex =
     (parseInt (slice 1 3 hex) (Some 16), parseInt (slice 3 5 hex) (Some 16),
      parseInt (slice 5 7 hex) (Some 16))"

text \<open>\<open>Math.sqrt\<close> of the sum of the three squares; \<open>NaN\<close> as soon as one component is.\<close>

fun colorDistance :: "rgb \<Rightarrow> rgb \<Rightarrow> distance" where
  "colorDistance (Num r1, Num g1, Num b1) (Num r2, Num g2, Num b2) =
     Sqrt ((r1 - r2)\<^sup>2 + (g1 - g2)\<^sup>2 + (b1 - b2)\<^sup>2)"
| "colorDistance _ _ = NaN_distance"

text \<open>One round of the loop over the entries, on the pair of \<open>closestColor\<close> (or
  \<open>closestPreset\<close>) and \<open>minDistance\<close>, and the whole loop.\<close>

definition closer :: "rgb \<Rightarrow> 'v \<times> distance \<Rightarrow> string \<times> 'v \<Rightarrow> 'v \<times> distance" where
  "closer targetRgb acc entry =
     (let distance = colorDistance targetRgb (hexToRgb (fst entry))
      in if js_less distance (snd acc) then (snd entry, distance) else acc)"

definition closest :: "rgb \<Rightarrow> (string \<times> 'v) list \<Rightarrow> 'v \<Rightarrow> 'v" where
  "closest targetRgb table initial = fst (foldl (closer targetRgb) (initial, Infinity) table)"

text \<open>The colour strings \<open>#rrggbb\<close>: seven characters, \<open>#\<close> and six hexadecimal digits.\<close>

definition hex_color :: "string \<Rightarrow> bool" where
  "hex_color s = (length s = 7 \<and> startsWith s ''#'' \<and> list_all (is_digit 16) (tl s))"

section \<open>Label-organized adapter\<close>

subsection \<open>Backend records and client\<close>

text \<open>The part of \<open>gmail_v1.Schema$Message\<close> that the modelled code reads, and the client
  calls it makes, each a promise over the backend's state.  Of the entries of
  \<open>response.data.messages\<close> only the \<open>id\<close> is read: the list holds the id of each.\<close>

record GmailHeader =
  header_name :: "string option"
  header_value :: "string option"

record GmailMessage =
  gm_id :: "string option"
  gm_threadId :: "string option"
  gm_labelIds :: "string list option"
  gm_payload_headers :: "GmailHeader list option"

record GmailSendRequest =
  raw :: string
  send_threadId :: "string option"

record GmailListRequest =
  list_maxResults :: nat
  list_pageToken :: "string option"
  list_labelIds :: "string list option"
  list_q :: string

record GmailListResponse =
  list_messages :: "string option list option"
  list_nextPageToken :: "string option"
  list_resultSizeEstimate :: "nat option"

record GmailColor =
  backgroundColor :: string
  textColor :: string

record GmailLabelCreateRequest =
  create_name :: string
  labelListVisibility :: string
  messageListVisibility :: string
  create_color :: "GmailColor converted option"

record GmailLabel =
  gl_id :: string
  gl_name :: string
  gl_backgroundColor :: "string option"

record 's GmailClient =
  messages_get :: "string \<Rightarrow> 's \<Rightarrow> (js_error + GmailMessage) \<times> 's"
  messages_send :: "GmailSendRequest \<Rightarrow> 's \<Rightarrow> (js_error + GmailMessage) \<times> 's"
  messages_list :: "GmailListRequest \<Rightarrow> 's \<Rightarrow> (js_error + GmailListResponse) \<times> 's"
  labels_create :: "GmailLabelCreateRequest \<Rightarrow> 's \<Rightarrow> (js_error + GmailLabel) \<times> 's"

text \<open>What the runtime supplies to \<open>createMimeMessage\<close>: the two readings of
  \<open>Date.now()\<close> and base64 of a string and of a buffer.\<close>

record Runtime =
  now_outer :: nat
  now_inner :: nat
  base64_string :: "string \<Rightarrow> string"
  base64_buffer :: "string \<Rightarrow> string"

subsection \<open>Parsing addresses\<close>

text \<open>
  \<open>addr.match(/^(.+?)\s*<(.+?)>$/)\<close>.  \<open>bracket_tail\<close> matches \<open>\s*<(.+?)>$\<close> against the
  rest of the string: the white space is skipped, the next character is \<open><\<close>, the last
  one is \<open>>\<close>, and the second group is all that lies between, non-empty and free of line
  terminators.  \<open>address_match\<close> lengthens the lazy first group one character at a time
  until the rest matches; it returns both groups.
\<close>

definition bracket_tail :: "string \<Rightarrow> string option" where
  "bracket_tail r =
     (case dropWhile is_space r of
        [] \<Rightarrow> None
      | c # t \<Rightarrow>
          if c = CHR ''<'' \<and> t \<noteq> [] \<and> last t = CHR ''>'' \<and> butlast t \<noteq> []
             \<and> \<not> list_ex line_terminator (butlast t)
          then Some (butlast t) else None)"

fun address_match :: "string \<Rightarrow> string \<Rightarrow> (string \<times> string) option" where
  "address_match pre [] = None"
| "address_match pre (c # r) =
     (if line_terminator c then None
      else (case bracket_tail r of
              Some g2 \<Rightarrow> Some (pre @ [c], g2)
            | None \<Rightarrow> address_match (pre @ [c]) r))"

definition parseEmailAddress :: "string option \<Rightarrow> EmailAddress option" where
  "parseEmailAddress addr =
     (case addr of
        None \<Rightarrow> None
      | Some a \<Rightarrow>
          if a = [] then None
          else (case address_match [] a of
                  Some (g1, g2) \<Rightarrow> Some \<lparr>email = trim g2, name = Some (trim g1)\<rparr>
                | None \<Rightarrow> Some \<lparr>email = trim a, name = None\<rparr>))"

definition parseEmailAddresses :: "string option \<Rightarrow> EmailAddress list" where
  "parseEmailAddresses addrs =
     (case addrs of
        None \<Rightarrow> []
      | Some a \<Rightarrow>
          if a = [] then []
          else List.map_filter (\<lambda>piece. parseEmailAddress (Some (trim piece)))
                 (split_on CHR '','' a))"

subsection \<open>Reading messages\<close>

definition getHeader :: "GmailHeader list \<Rightarrow> string \<Rightarrow> string option" where
  "getHeader hs nm =
     (case find (\<lambda>h. map_option toLowerCase (header_name h) = Some (toLowerCase nm)) hs of
        None \<Rightarrow> None
      | Some h \<Rightarrow> header_value h)"

definition convertGmailMessage :: "GmailMessage \<Rightarrow> EmailMessage" where
  "convertGmailMessage gmailMsg =
     (let hs = (case gm_payload_headers gmailMsg of None \<Rightarrow> [] | Some l \<Rightarrow> l)
      in \<lparr>msg_id = gm_id gmailMsg,
          msg_threadId = gm_threadId gmailMsg,
          msg_subject = (case getHeader hs ''subject'' of None \<Rightarrow> [] | Some v \<Rightarrow> v),
          msg_from = parseEmailAddress (getHeader hs ''from''),
          msg_to = parseEmailAddresses (getHeader hs ''to''),
          msg_cc = Some (parseEmailAddresses (getHeader hs ''cc'')),
          msg_bcc = None,
          msg_isRead =
            Some (\<not> (case gm_labelIds gmailMsg of None \<Rightarrow> False
                      | Some l \<Rightarrow> ''UNREAD'' \<in> set l)),
          msg_labels = Some (case gm_labelIds gmailMsg of None \<Rightarrow> [] | Some l \<Rightarrow> l)\<rparr>)"

definition gmail_getEmail ::
  "'s GmailClient \<Rightarrow> string \<Rightarrow> 's \<Rightarrow> (js_error + EmailMessage) \<times> 's" where
  "gmail_getEmail c emailId =
     try_catch ''gmail''
       (await (messages_get c emailId) (\<lambda>response. resolve (convertGmailMessage response)))"

definition buildQuery :: "ListEmailsOptions \<Rightarrow> string" where
  "buildQuery options =
     join '' ''
       ((case lo_query options of None \<Rightarrow> [] | Some q \<Rightarrow> if q = [] then [] else [q])
        @ (if lo_unreadOnly options = Some True then [''is:unread''] else []))"

text \<open>The loop of \<open>listEmails\<close> over \<open>response.data.messages\<close>: an entry with a truthy \<open>id\<close>
  is fetched again through \<open>getEmail\<close>; the first rejection ends the loop.\<close>

fun fetch_each ::
  "'s GmailClient \<Rightarrow> string option list \<Rightarrow> 's \<Rightarrow> (js_error + EmailMessage list) \<times> 's" where
  "fetch_each c [] s = (Inr [], s)"
| "fetch_each c (m # ms) s =
     (case m of
        None \<Rightarrow> fetch_each c ms s
      | Some i \<Rightarrow>
          if i = [] then fetch_each c ms s
          else (case gmail_getEmail c i s of
                  (Inl e, s1) \<Rightarrow> (Inl e, s1)
                | (Inr fullMessage, s1) \<Rightarrow>
                    (case fetch_each c ms s1 of
                       (Inl e, s2) \<Rightarrow> (Inl e, s2)
                     | (Inr rest, s2) \<Rightarrow> (Inr (fullMessage # rest), s2))))"

definition gmail_listEmails ::
  "'s GmailClient \<Rightarrow> ListEmailsOptions \<Rightarrow> 's \<Rightarrow> (js_error + ListEmailsResponse) \<times> 's" where
  "gmail_listEmails c options =
     try_catch ''gmail''
       (await (messages_list c
                 \<lparr>list_maxResults =
                    (case lo_maxResults options of None \<Rightarrow> 100
                     | Some n \<Rightarrow> if n = 0 then 100 else n),
                  list_pageToken = lo_pageToken options,
                  list_labelIds = lo_labelIds options,
                  list_q = buildQuery options\<rparr>)
          (\<lambda>response.
             await (fetch_each c (case list_messages response of None \<Rightarrow> [] | Some l \<Rightarrow> l))
               (\<lambda>msgs. resolve
                  \<lparr>messages = msgs,
                   nextPageToken = list_nextPageToken response,
                   totalCount = list_resultSizeEstimate response\<rparr>)))"

subsection \<open>Sending a reply\<close>

definition formatEmailAddress :: "EmailAddress \<Rightarrow> string" where
  "formatEmailAddress addr =
     (case name addr of
        None \<Rightarrow> email addr
      | Some n \<Rightarrow> if n = [] then email addr else n @ '' <'' @ email addr @ ''>'')"

definition CRLF :: string where
  "CRLF = [CHR 0x0D, CHR 0x0A]"

definition quoted :: "string \<Rightarrow> string" where
  "quoted s = [CHR 0x22] @ s @ [CHR 0x22]"

definition hasAttachments :: "SendEmailOptions \<Rightarrow> bool" where
  "hasAttachments options =
     (case so_attachments options of None \<Rightarrow> False | Some l \<Rightarrow> l \<noteq> [])"

definition boundary :: "Runtime \<Rightarrow> string" where
  "boundary rt = ''----=_Part_'' @ show_nat (now_outer rt)"

definition innerBoundary :: "Runtime \<Rightarrow> string" where
  "innerBoundary rt = ''----=_Part_Inner_'' @ show_nat (now_inner rt)"

text \<open>The array \<open>headers\<close> of \<open>createMimeMessage\<close> after \<open>filter(Boolean)\<close>.\<close>

definition mimeHeaders :: "Runtime \<Rightarrow> SendEmailOptions \<Rightarrow> string list" where
  "mimeHeaders rt options =
     filter (\<lambda>h. h \<noteq> [])
       [''To: '' @ join '', '' (map formatEmailAddress (so_to options)),
        (case so_cc options of None \<Rightarrow> []
         | Some l \<Rightarrow> ''Cc: '' @ join '', '' (map formatEmailAddress l)),
        (case so_bcc options of None \<Rightarrow> []
         | Some l \<Rightarrow> ''Bcc: '' @ join '', '' (map formatEmailAddress l)),
        ''Subject: '' @ so_subject options,
        ''MIME-Version: 1.0'',
        ''Content-Type: ''
          @ (if hasAttachments options then ''multipart/mixed; boundary='' @ quoted (boundary rt)
             else ''multipart/alternative; boundary='' @ quoted (boundary rt))]"

text \<open>The text part and the optional HTML part, between delimiters \<open>b\<close>.\<close>

definition textParts :: "string \<Rightarrow> SendEmailOptions \<Rightarrow> string" where
  "textParts b options =
     ''--'' @ b @ CRLF
     @ ''Content-Type: text/plain; charset=UTF-8'' @ CRLF @ CRLF
     @ so_body options @ CRLF @ CRLF
     @ (case so_htmlBody options of
          None \<Rightarrow> []
        | Some h \<Rightarrow>
            if h = [] then []
            else ''--'' @ b @ CRLF
                 @ ''Content-Type: text/html; charset=UTF-8'' @ CRLF @ CRLF
                 @ h @ CRLF @ CRLF)"

definition attachmentPart :: "Runtime \<Rightarrow> EmailAttachment \<Rightarrow> string" where
  "attachmentPart rt attachment =
     ''--'' @ boundary rt @ CRLF
     @ ''Content-Type: '' @ att_contentType attachment @ ''; name=''
       @ quoted (att_filename attachment) @ CRLF
     @ ''Content-Transfer-Encoding: base64'' @ CRLF
     @ ''Content-Disposition: attachment; filename='' @ quoted (att_filename attachment)
       @ CRLF @ CRLF
     @ (case att_content attachment of
          StringContent t \<Rightarrow> base64_string rt t
        | BufferContent b \<Rightarrow> base64_buffer rt b)
     @ CRLF @ CRLF"

text \<open>\<open>createMimeMessage(options, _threadId)\<close>; the second parameter is not read.\<close>

definition createMimeMessage :: "Runtime \<Rightarrow> SendEmailOptions \<Rightarrow> string" where
  "createMimeMessage rt options =
     join CRLF (mimeHeaders rt options) @ CRLF @ CRLF
     @ (if hasAttachments options then
          ''--'' @ boundary rt @ CRLF
          @ ''Content-Type: multipart/alternative; boundary='' @ quoted (innerBoundary rt)
            @ CRLF @ CRLF
          @ textParts (innerBoundary rt) options
          @ ''--'' @ innerBoundary rt @ ''--'' @ CRLF @ CRLF
          @ concat (map (attachmentPart rt) (the (so_attachments options)))
        else textParts (boundary rt) options)
     @ ''--'' @ boundary rt @ ''--''"

text \<open>\<open>Buffer.from(message).toString('base64')\<close> with \<open>+\<close> and \<open>/\<close> replaced and the
  trailing run of \<open>=\<close> removed.\<close>

definition encodeMessage :: "Runtime \<Rightarrow> string \<Rightarrow> string" where
  "encodeMessage rt mime =
     rev (dropWhile (\<lambda>c. c = CHR ''='')
       (rev (map (\<lambda>c. if c = CHR ''+'' then CHR ''-'' else if c = CHR ''/'' then CHR ''_'' else c)
          (base64_string rt mime))))"

definition gmail_replyToEmail ::
  "Runtime \<Rightarrow> 's GmailClient \<Rightarrow> string \<Rightarrow> SendEmailOptions \<Rightarrow> 's
     \<Rightarrow> (js_error + EmailMessage) \<times> 's" where
  "gmail_replyToEmail rt c emailId options =
     try_catch ''gmail''
       (await (gmail_getEmail c emailId)
          (\<lambda>originalMessage.
             await (messages_send c
                      \<lparr>raw = encodeMessage rt
                               (createMimeMessage rt
                                  (options\<lparr>so_subject := ''Re: '' @ msg_subject originalMessage\<rparr>)),
                       send_threadId = msg_threadId originalMessage\<rparr>)
               (\<lambda>response. resolve
                  \<lparr>msg_id = gm_id response,
                   msg_threadId = gm_threadId response,
                   msg_subject = ''Re: '' @ msg_subject originalMessage,
                   msg_from = None,
                   msg_to = so_to options,
                   msg_cc = so_cc options,
                   msg_bcc = None,
                   msg_isRead = None,
                   msg_labels =
                     Some (case gm_labelIds response of None \<Rightarrow> [] | Some l \<Rightarrow> l)\<rparr>)))"

subsection \<open>Creating a label\<close>

definition gmail_color :: "string \<Rightarrow> string \<Rightarrow> GmailColor" where
  "gmail_color bg fg = \<lparr>backgroundColor = bg, textColor = fg\<rparr>"

definition colorPalette :: "(string \<times> GmailColor) list" where
  "colorPalette =
     [(''#ff0000'', gmail_color ''#fb4c2f'' ''#ffffff''),
      (''#fb4c2f'', gmail_color ''#fb4c2f'' ''#ffffff''),
      (''#ff8800'', gmail_color ''#ffc8af'' ''#ffffff''),
      (''#ffc8af'', gmail_color ''#ffc8af'' ''#594c05''),
      (''#ffff00'', gmail_color ''#fad165'' ''#594c05''),
      (''#fad165'', gmail_color ''#fad165'' ''#594c05''),
      (''#00ff00'', gmail_color ''#16a765'' ''#ffffff''),
      (''#16a765'', gmail_color ''#16a765'' ''#ffffff''),
      (''#7bd148'', gmail_color ''#7bd148'' ''#594c05''),
      (''#0000ff'', gmail_color ''#4986e7'' ''#ffffff''),
      (''#4986e7'', gmail_color ''#4986e7'' ''#ffffff''),
      (''#a4bdfc'', gmail_color ''#a4bdfc'' ''#594c05''),
      (''#800080'', gmail_color ''#b99aff'' ''#ffffff''),
      (''#b99aff'', gmail_color ''#b99aff'' ''#594c05''),
      (''#ff00ff'', gmail_color ''#f691b3'' ''#ffffff''),
      (''#f691b3'', gmail_color ''#f691b3'' ''#ffffff''),
      (''#808080'', gmail_color ''#cabdbf'' ''#594c05''),
      (''#cabdbf'', gmail_color ''#cabdbf'' ''#594c05'')]"

definition convertToGmailColor :: "string \<Rightarrow> GmailColor converted" where
  "convertToGmailColor hexColor =
     (let normalizedColor = toLowerCase hexColor
      in case object_lookup colorPalette normalizedColor of
           Own v \<Rightarrow> Entry v
         | Inherited k \<Rightarrow> PrototypeMember k
         | Absent \<Rightarrow>
             if startsWith normalizedColor ''#'' \<and> length normalizedColor = 7 then
               Entry (closest (hexToRgb normalizedColor)
                        (filter (\<lambda>entry. startsWith (fst entry) ''#'') colorPalette)
                        (gmail_color ''#fb4c2f'' ''#ffffff''))
             else Entry (gmail_color ''#fb4c2f'' ''#ffffff''))"

definition gmail_createLabel ::
  "'s GmailClient \<Rightarrow> string \<Rightarrow> string option \<Rightarrow> 's \<Rightarrow> (js_error + EmailLabel) \<times> 's" where
  "gmail_createLabel c label color =
     try_catch ''gmail''
       (await (labels_create c
                 \<lparr>create_name = label,
                  labelListVisibility = ''labelShow'',
                  messageListVisibility = ''show'',
                  create_color =
                    (case color of
                       None \<Rightarrow> None
                     | Some h \<Rightarrow> if h = [] then None else Some (convertToGmailColor h))\<rparr>)
          (\<lambda>response. resolve
             \<lparr>label_id = gl_id response,
              label_name = gl_name response,
              label_color = gl_backgroundColor response,
              label_type = Some ''user''\<rparr>))"

text \<open>A simulated backend: every call succeeds and is logged in the state; \<open>get\<close> answers
  with \<open>stored\<close> whatever the id, \<open>send\<close> with \<open>sent\<close>, \<open>list\<close> with the given ids.\<close>

datatype gmail_call =
    MessagesGet string
  | MessagesSend GmailSendRequest
  | MessagesList GmailListRequest
  | LabelsCreate GmailLabelCreateRequest

definition simulated_gmail ::
  "GmailMessage \<Rightarrow> GmailMessage \<Rightarrow> string option list \<Rightarrow> gmail_call list GmailClient" where
  "simulated_gmail stored sent ids =
     \<lparr>messages_get = (\<lambda>i log. (Inr stored, log @ [MessagesGet i])),
      messages_send = (\<lambda>r log. (Inr sent, log @ [MessagesSend r])),
      messages_list = (\<lambda>r log.
         (Inr \<lparr>list_messages = Some ids, list_nextPageToken = None,
               list_resultSizeEstimate = None\<rparr>, log @ [MessagesList r])),
      labels_create = (\<lambda>r log.
         (Inr \<lparr>gl_id = ''Label_1'', gl_name = create_name r, gl_backgroundColor = None\<rparr>,
          log @ [LabelsCreate r]))\<rparr>"

text \<open>Sample data for the simulated backend: a stored record with the given label ids
  and subject, a send response with the given thread id, a runtime whose base64 is the
  identity (so that the submitted message stays legible), and a reply.\<close>

definition gmail_record :: "string list option \<Rightarrow> string \<Rightarrow> GmailMessage" where
  "gmail_record ids subj =
     \<lparr>gm_id = Some ''m1'', gm_threadId = Some ''t1'', gm_labelIds = ids,
      gm_payload_headers =
        Some [\<lparr>header_name = Some ''Subject'', header_value = Some subj\<rparr>,
              \<lparr>header_name = Some ''From'', header_value = Some ''Ann <ann@example.com>''\<rparr>]\<rparr>"

definition send_response :: "string option \<Rightarrow> GmailMessage" where
  "send_response thread =
     \<lparr>gm_id = Some ''m2'', gm_threadId = thread, gm_labelIds = Some [''SENT''],
      gm_payload_headers = None\<rparr>"

definition plain_runtime :: Runtime where
  "plain_runtime =
     \<lparr>now_outer = 17, now_inner = 18, base64_string = (\<lambda>t. t), base64_buffer = (\<lambda>b. b)\<rparr>"

definition reply_options :: SendEmailOptions where
  "reply_options =
     \<lparr>so_subject = ''ignored'', so_to = [\<lparr>email = ''ann@example.com'', name = None\<rparr>],
      so_cc = None, so_bcc = None, so_body = ''Thanks'', so_htmlBody = None,
      so_attachments = None, so_replyTo = None\<rparr>"

section \<open>Folder-native adapter\<close>

subsection \<open>Backend records and client\<close>

text \<open>
  The Graph client answers with untyped JSON.  A property that the adapter guards (with
  \<open>?.\<close>, \<open>||\<close> or a test) is optional here; one it reads unguarded has the type of the
  unified record it is copied into.  Each client call stands for one request:
  \<^item> \<open>get_mailFolders\<close>: \<open>api('/me/mailFolders').get()\<close>, the array \<open>response.value\<close>;
  \<^item> \<open>get_masterCategories\<close>: \<open>api('/me/outlook/masterCategories').get()\<close>, likewise;
  \<^item> \<open>post_masterCategories\<close>: the same path, \<open>post({displayName, color})\<close>;
  \<^item> \<open>get_message i\<close>: \<open>api(`/me/messages/${i}`).get()\<close>;
  \<^item> \<open>patch_categories i l\<close>: the same path, \<open>patch({categories: l})\<close>;
  \<^item> \<open>post_move i d\<close>: \<open>api(`/me/messages/${i}/move`).post({destinationId: d})\<close>;
  \<^item> \<open>delete_message i\<close>: \<open>api(`/me/messages/${i}`).delete()\<close>.
\<close>

record GraphFolder =
  gf_id :: string
  gf_displayName :: string
  gf_parentFolderId :: "string option"
  gf_unreadItemCount :: "nat option"
  gf_totalItemCount :: "nat option"

record GraphCategory =
  gc_id :: string
  gc_displayName :: string
  gc_color :: "string option"
  gc_preset :: bool

record GraphEmailAddress =
  address :: "string option"
  ea_name :: "string option"

record GraphRecipient =
  emailAddress :: "GraphEmailAddress option"

record GraphMessage =
  graph_id :: string
  graph_subject :: string
  graph_from :: "GraphRecipient option"
  toRecipients :: "GraphRecipient option list option"
  ccRecipients :: "GraphRecipient option list option"
  graph_isRead :: "bool option"
  conversationId :: "string option"
  categories :: "string list option"

record 's GraphClient =
  get_mailFolders :: "'s \<Rightarrow> (js_error + GraphFolder list) \<times> 's"
  get_masterCategories :: "'s \<Rightarrow> (js_error + GraphCategory list) \<times> 's"
  post_masterCategories ::
    "string \<Rightarrow> string converted \<Rightarrow> 's \<Rightarrow> (js_error + GraphCategory) \<times> 's"
  get_message :: "string \<Rightarrow> 's \<Rightarrow> (js_error + GraphMessage) \<times> 's"
  patch_categories :: "string \<Rightarrow> string list \<Rightarrow> 's \<Rightarrow> (js_error + unit) \<times> 's"
  post_move :: "string \<Rightarrow> string \<Rightarrow> 's \<Rightarrow> (js_error + unit) \<times> 's"
  delete_message :: "string \<Rightarrow> 's \<Rightarrow> (js_error + unit) \<times> 's"

subsection \<open>Messages and folders\<close>

definition convertFromGraphRecipient :: "GraphRecipient option \<Rightarrow> EmailAddress" where
  "convertFromGraphRecipient recipient =
     (case recipient of
        None \<Rightarrow> \<lparr>email = [], name = None\<rparr>
      | Some r \<Rightarrow>
          \<lparr>email = (case emailAddress r of
                      None \<Rightarrow> []
                    | Some a \<Rightarrow> (case address a of None \<Rightarrow> [] | Some v \<Rightarrow> v)),
           name = (case emailAddress r of None \<Rightarrow> None | Some a \<Rightarrow> ea_name a)\<rparr>)"

definition convertGraphMessage :: "GraphMessage \<Rightarrow> EmailMessage" where
  "convertGraphMessage graphMsg =
     \<lparr>msg_id = Some (graph_id graphMsg),
      msg_threadId = conversationId graphMsg,
      msg_subject = graph_subject graphMsg,
      msg_from = Some (convertFromGraphRecipient (graph_from graphMsg)),
      msg_to = (case toRecipients graphMsg of None \<Rightarrow> []
                | Some l \<Rightarrow> map convertFromGraphRecipient l),
      msg_cc = Some (case ccRecipients graphMsg of None \<Rightarrow> []
                     | Some l \<Rightarrow> map convertFromGraphRecipient l),
      msg_bcc = None,
      msg_isRead = graph_isRead graphMsg,
      msg_labels = Some (case categories graphMsg of None \<Rightarrow> [] | Some l \<Rightarrow> l)\<rparr>"

definition microsoft_getEmail ::
  "'s GraphClient \<Rightarrow> string \<Rightarrow> 's \<Rightarrow> (js_error + EmailMessage) \<times> 's" where
  "microsoft_getEmail c emailId =
     try_catch ''microsoft''
       (await (get_message c emailId) (\<lambda>response. resolve (convertGraphMessage response)))"

definition microsoft_deleteEmail ::
  "'s GraphClient \<Rightarrow> string \<Rightarrow> 's \<Rightarrow> (js_error + unit) \<times> 's" where
  "microsoft_deleteEmail c emailId =
     try_catch ''microsoft'' (await (delete_message c emailId) (\<lambda>u. resolve ()))"

definition microsoft_listFolders ::
  "'s GraphClient \<Rightarrow> 's \<Rightarrow> (js_error + EmailFolder list) \<times> 's" where
  "microsoft_listFolders c =
     try_catch ''microsoft''
       (await (get_mailFolders c)
          (\<lambda>value. resolve
             (map (\<lambda>folder.
                     \<lparr>folder_id = gf_id folder,
                      folder_name = gf_displayName folder,
                      folder_parentId = gf_parentFolderId folder,
                      folder_unreadCount = gf_unreadItemCount folder,
                      folder_totalCount = gf_totalItemCount folder\<rparr>) value)))"

definition microsoft_moveToFolder ::
  "'s GraphClient \<Rightarrow> MoveEmailOptions \<Rightarrow> 's \<Rightarrow> (js_error + unit) \<times> 's" where
  "microsoft_moveToFolder c options =
     try_catch ''microsoft''
       (await (post_move c (move_emailId options) (move_folderId options))
          (\<lambda>u. resolve ()))"

definition microsoft_archiveEmail ::
  "'s GraphClient \<Rightarrow> string \<Rightarrow> 's \<Rightarrow> (js_error + unit) \<times> 's" where
  "microsoft_archiveEmail c emailId =
     try_catch ''microsoft''
       (await (microsoft_listFolders c)
          (\<lambda>folders.
             case find (\<lambda>f. folder_name f = ''Archive'') folders of
               Some archiveFolder \<Rightarrow>
                 microsoft_moveToFolder c
                   \<lparr>move_emailId = emailId, move_folderId = folder_id archiveFolder\<rparr>
             | None \<Rightarrow> reject (Thrown (error_object ''Archive folder not found''))))"

definition microsoft_trashEmail ::
  "'s GraphClient \<Rightarrow> string \<Rightarrow> 's \<Rightarrow> (js_error + unit) \<times> 's" where
  "microsoft_trashEmail c emailId =
     try_catch ''microsoft''
       (await (microsoft_listFolders c)
          (\<lambda>folders.
             case find (\<lambda>f. folder_name f = ''Deleted Items'') folders of
               Some trashFolder \<Rightarrow>
                 microsoft_moveToFolder c
                   \<lparr>move_emailId = emailId, move_folderId = folder_id trashFolder\<rparr>
             | None \<Rightarrow> microsoft_deleteEmail c emailId))"

subsection \<open>Categories\<close>

definition microsoft_listLabels ::
  "'s GraphClient \<Rightarrow> 's \<Rightarrow> (js_error + EmailLabel list) \<times> 's" where
  "microsoft_listLabels c =
     try_catch ''microsoft''
       (await (get_masterCategories c)
          (\<lambda>value. resolve
             (map (\<lambda>category.
                     \<lparr>label_id = gc_id category,
                      label_name = gc_displayName category,
                      label_color = gc_color category,
                      label_type = Some (if gc_preset category then ''system'' else ''user'')\<rparr>)
                value)))"

text \<open>\<open>labelIds.map(id => categories.find(c => c.id === id)?.name).filter(Boolean)\<close>: an
  id without a category gives \<open>undefined\<close>, which the filter drops, as it drops an empty
  name.\<close>

definition resolveNames :: "EmailLabel list \<Rightarrow> string list \<Rightarrow> string list" where
  "resolveNames cats ids =
     List.map_filter
       (\<lambda>i. case find (\<lambda>c. label_id c = i) cats of
               None \<Rightarrow> None
             | Some c \<Rightarrow> if label_name c = [] then None else Some (label_name c))
       ids"

definition microsoft_addLabels ::
  "'s GraphClient \<Rightarrow> LabelsOptions \<Rightarrow> 's \<Rightarrow> (js_error + unit) \<times> 's" where
  "microsoft_addLabels c options =
     try_catch ''microsoft''
       (await (microsoft_listLabels c)
          (\<lambda>cats.
             await (patch_categories c (lbl_emailId options)
                      (resolveNames cats (lbl_labelIds options)))
               (\<lambda>u. resolve ())))"

definition microsoft_removeLabels ::
  "'s GraphClient \<Rightarrow> LabelsOptions \<Rightarrow> 's \<Rightarrow> (js_error + unit) \<times> 's" where
  "microsoft_removeLabels c options =
     try_catch ''microsoft''
       (await (microsoft_getEmail c (lbl_emailId options))
          (\<lambda>msg.
             await (microsoft_listLabels c)
               (\<lambda>cats.
                  await (patch_categories c (lbl_emailId options)
                           (filter
                              (\<lambda>cat. cat \<notin> set (resolveNames cats (lbl_labelIds options)))
                              (case msg_labels msg of None \<Rightarrow> [] | Some l \<Rightarrow> l)))
                    (\<lambda>u. resolve ()))))"

definition colorMap :: "(string \<times> string) list" where
  "colorMap =
     [(''#ff0000'', ''preset0''), (''#ff4500'', ''preset1''), (''#8b4513'', ''preset2''),
      (''#ffff00'', ''preset3''), (''#008000'', ''preset4''), (''#008080'', ''preset5''),
      (''#808000'', ''preset6''), (''#0000ff'', ''preset7''), (''#800080'', ''preset8''),
      (''#9b2d30'', ''preset9''), (''#5a7e9f'', ''preset10''), (''#485c69'', ''preset11''),
      (''#808080'', ''preset12''), (''#696969'', ''preset13''), (''#000000'', ''preset14''),
      (''#8b0000'', ''preset15''), (''#ff8c00'', ''preset16''), (''#654321'', ''preset17''),
      (''#9b870c'', ''preset18''), (''#006400'', ''preset19''), (''#00555a'', ''preset20''),
      (''#5b5e0a'', ''preset21''), (''#00008b'', ''preset22''), (''#4b0082'', ''preset23''),
      (''#6f2633'', ''preset24'')]"

definition convertColorToPreset :: "string option \<Rightarrow> string converted" where
  "convertColorToPreset color =
     (case color of
        None \<Rightarrow> Entry ''preset0''
      | Some col \<Rightarrow>
          if col = [] then Entry ''preset0''
          else if startsWith col ''preset'' then Entry col
          else
            (let normalizedColor = toLowerCase col
             in case object_lookup colorMap normalizedColor of
                  Own v \<Rightarrow> Entry v
                | Inherited k \<Rightarrow> PrototypeMember k
                | Absent \<Rightarrow>
                    if startsWith normalizedColor ''#'' \<and> length normalizedColor = 7 then
                      Entry (closest (hexToRgb normalizedColor) colorMap ''preset0'')
                    else Entry ''preset0''))"

definition microsoft_createLabel ::
  "'s GraphClient \<Rightarrow> string \<Rightarrow> string option \<Rightarrow> 's \<Rightarrow> (js_error + EmailLabel) \<times> 's" where
  "microsoft_createLabel c label color =
     try_catch ''microsoft''
       (await (post_masterCategories c label (convertColorToPreset color))
          (\<lambda>response. resolve
             \<lparr>label_id = gc_id response,
              label_name = gc_displayName response,
              label_color = gc_color response,
              label_type = Some ''user''\<rparr>))"

text \<open>A simulated backend: a mailbox with the given folders, categories and one message;
  every call succeeds and is logged in the state.\<close>

datatype graph_call =
    GetMailFolders
  | GetMasterCategories
  | PostMasterCategories string "string converted"
  | GetMessage string
  | PatchCategories string "string list"
  | PostMove string string
  | DeleteMessage string

definition simulated_graph ::
  "GraphFolder list \<Rightarrow> GraphCategory list \<Rightarrow> GraphMessage \<Rightarrow> graph_call list GraphClient" where
  "simulated_graph folders cats stored =
     \<lparr>get_mailFolders = (\<lambda>log. (Inr folders, log @ [GetMailFolders])),
      get_masterCategories = (\<lambda>log. (Inr cats, log @ [GetMasterCategories])),
      post_masterCategories = (\<lambda>n col log.
         (Inr \<lparr>gc_id = ''c1'', gc_displayName = n, gc_color = None, gc_preset = False\<rparr>,
          log @ [PostMasterCategories n col])),
      get_message = (\<lambda>i log. (Inr stored, log @ [GetMessage i])),
      patch_categories = (\<lambda>i l log. (Inr (), log @ [PatchCategories i l])),
      post_move = (\<lambda>i d log. (Inr (), log @ [PostMove i d])),
      delete_message = (\<lambda>i log. (Inr (), log @ [DeleteMessage i]))\<rparr>"

definition graph_folder :: "string \<Rightarrow> string \<Rightarrow> GraphFolder" where
  "graph_folder i n =
     \<lparr>gf_id = i, gf_displayName = n, gf_parentFolderId = None, gf_unreadItemCount = None,
      gf_totalItemCount = None\<rparr>"

definition graph_category :: "string \<Rightarrow> string \<Rightarrow> GraphCategory" where
  "graph_category i n = \<lparr>gc_id = i, gc_displayName = n, gc_color = None, gc_preset = False\<rparr>"

definition graph_message :: "string \<Rightarrow> string list \<Rightarrow> GraphMessage" where
  "graph_message i cats =
     \<lparr>graph_id = i, graph_subject = ''hello'', graph_from = None, toRecipients = None,
      ccRecipients = None, graph_isRead = Some False, conversationId = None,
      categories = Some cats\<rparr>"

section \<open>Direct-protocol adapter\<close>

text \<open>\<open>ImapProvider.createLabel\<close>: the body is a single \<open>throw\<close>; neither argument nor the
  connection is read.\<close>

definition imap_createLabel :: "string \<Rightarrow> string option \<Rightarrow> js_error + EmailLabel" where
  "imap_createLabel label color =
     Inl (Classified (SuperMailError ''SuperMailError'' OPERATION_FAILED
       ''IMAP does not support creating custom labels. Use folders instead.''
       (Some ''imap'') None None))"

section \<open>Facade\<close>

text \<open>The configuration record: its discriminant and, in the extension of the record,
  the fields of the backend.  An instance of one of the three provider classes holds the
  configuration it was constructed from; constructing one from a configuration of its
  type does not throw.\<close>

record EmailProviderConfig =
  config_type :: string

datatype 'c provider = GmailProvider 'c | MicrosoftProvider 'c | ImapProvider 'c

text \<open>\<open>SuperMail.createProvider\<close>: the \<open>switch\<close> has the cases \<open>gmail\<close> and \<open>microsoft\<close> and
  a default that throws a plain \<open>Error\<close>.\<close>

definition createProvider ::
  "'a EmailProviderConfig_scheme \<Rightarrow> js_error + 'a EmailProviderConfig_scheme provider" where
  "createProvider config =
     (if config_type config = ''gmail'' then Inr (GmailProvider config)
      else if config_type config = ''microsoft'' then Inr (MicrosoftProvider config)
      else Inl (Thrown (error_object (''Unsupported provider type: '' @ config_type config))))"

text \<open>The constructor of \<open>SuperMail\<close> stores the provider; the instance is its field.\<close>

definition SuperMail ::
  "'a EmailProviderConfig_scheme \<Rightarrow> js_error + 'a EmailProviderConfig_scheme provider" where
  "SuperMail config = createProvider config"

section \<open>Properties of the error taxonomy\<close>

lemma retry_seconds_5: "retry_seconds (JStr ''5'') = Inr (Some (Num 5))"
  by (simp add: retry_seconds_def parseInt_def is_space_def is_digit_def digit_val_def
      digits_value_def)

lemma raised_retry_seconds:
  assumes "stringifiable v"
  shows "\<exists>r. raised (retry_seconds v) = Inr r"
  using assms
  by (simp add: stringifiable_def retry_seconds_def raised_def split: sum.splits)

lemma gmail_rules_returns:
  assumes "stringifiable (response_retry_after e)" and "gmail_rules error e provider = Some r"
  shows "\<exists>c. r = Inr c"
  using assms raised_retry_seconds [of "response_retry_after e"]
  by (auto simp: gmail_rules_def Let_def split: if_splits)

lemma microsoft_rules_returns:
  assumes "stringifiable (headers_retry_after e)"
    and "microsoft_rules error e provider = Some r"
  shows "\<exists>c. r = Inr c"
  using assms raised_retry_seconds [of "headers_retry_after e"]
  by (auto simp: microsoft_rules_def Let_def split: if_splits)

lemma generic_rules_returns:
  assumes "stringifiable (message e)"
  shows "\<exists>c. generic_rules error e provider = Inr c"
  using assms
  by (simp add: generic_rules_def stringifiable_def raised_def split: sum.splits)

text \<open>An operation that awaits another operation of the adapter inside its own \<open>try\<close>
  block normalizes the inner operation's rejection a second time: the kind of a
  classified error is a string that no status table has, so the second pass ends in the
  fallback.\<close>

lemma rethrow_twice_unauthorized:
  "thrown_kind (rethrow (Thrown unauthorized_failure) ''gmail'') = Some AUTH_FAILED"
  "thrown_kind (rethrow (rethrow (Thrown unauthorized_failure) ''gmail'') ''gmail'')
     = Some UNKNOWN_ERROR"
  by code_simp+

text \<open>
  C1, as amended.  Under the tags \<open>gmail\<close> and \<open>microsoft\<close>, a failure whose status as the
  adapter's block reads it is 401 is classified \<open>AUTH_FAILED\<close>; one whose status is 429
  (and, for \<open>microsoft\<close>, whose error code is none of the three that an earlier rule
  takes), and whose retry-after header is absent or has a value that can be converted
  to a string, is classified \<open>RATE_LIMIT_EXCEEDED\<close>, with \<open>retryAfter = 5\<close> when the
  retry-after header is the string \<open>5\<close>.
\<close>

theorem normalizeError_status_kinds:
  assumes "properties error = Some e"
  shows "(gmail_status e = JNum 401 \<longrightarrow>
            normalized_kind (normalizeError error ''gmail'') = Some AUTH_FAILED)
       \<and> (gmail_status e = JNum 429 \<and> stringifiable (response_retry_after e) \<longrightarrow>
            normalized_kind (normalizeError error ''gmail'') = Some RATE_LIMIT_EXCEEDED
            \<and> (response_retry_after e = JStr ''5'' \<longrightarrow>
                 normalized_retryAfter (normalizeError error ''gmail'') = Some (Num 5)))
       \<and> (microsoft_status e = JNum 401 \<longrightarrow>
            normalized_kind (normalizeError error ''microsoft'') = Some AUTH_FAILED)
       \<and> (microsoft_status e = JNum 429
            \<and> microsoft_code e \<notin> {JStr ''InvalidAuthenticationToken'', JStr ''Forbidden'',
                  JStr ''ResourceNotFound''}
            \<and> stringifiable (headers_retry_after e) \<longrightarrow>
            normalized_kind (normalizeError error ''microsoft'') = Some RATE_LIMIT_EXCEEDED
            \<and> (headers_retry_after e = JStr ''5'' \<longrightarrow>
                 normalized_retryAfter (normalizeError error ''microsoft'') = Some (Num 5)))"
proof (intro conjI impI)
  assume "gmail_status e = JNum 401"
  with assms show "normalized_kind (normalizeError error ''gmail'') = Some AUTH_FAILED"
    by (simp add: normalizeError_def gmail_rules_def normalized_kind_def
        AuthenticationError_def)
next
  assume st: "gmail_status e = JNum 429 \<and> stringifiable (response_retry_after e)"
  then obtain r where r: "raised (retry_seconds (response_retry_after e)) = Inr r"
    using raised_retry_seconds by blast
  with assms st show
    "normalized_kind (normalizeError error ''gmail'') = Some RATE_LIMIT_EXCEEDED"
    by (simp add: normalizeError_def gmail_rules_def normalized_kind_def RateLimitError_def)
  assume "response_retry_after e = JStr ''5''"
  with assms st show
    "normalized_retryAfter (normalizeError error ''gmail'') = Some (Num 5)"
    by (simp add: normalizeError_def gmail_rules_def normalized_retryAfter_def
        RateLimitError_def retry_seconds_5 raised_def)
next
  assume "microsoft_status e = JNum 401"
  with assms show "normalized_kind (normalizeError error ''microsoft'') = Some AUTH_FAILED"
    by (simp add: normalizeError_def microsoft_rules_def normalized_kind_def
        AuthenticationError_def)
next
  assume st: "microsoft_status e = JNum 429
      \<and> microsoft_code e \<notin> {JStr ''InvalidAuthenticationToken'', JStr ''Forbidden'',
            JStr ''ResourceNotFound''}
      \<and> stringifiable (headers_retry_after e)"
  then obtain r where r: "raised (retry_seconds (headers_retry_after e)) = Inr r"
    using raised_retry_seconds by blast
  with assms st show
    "normalized_kind (normalizeError error ''microsoft'') = Some RATE_LIMIT_EXCEEDED"
    by (simp add: normalizeError_def microsoft_rules_def normalized_kind_def
        RateLimitError_def)
  assume "headers_retry_after e = JStr ''5''"
  with assms st show
    "normalized_retryAfter (normalizeError error ''microsoft'') = Some (Num 5)"
    by (simp add: normalizeError_def microsoft_rules_def normalized_retryAfter_def
        RateLimitError_def retry_seconds_5 raised_def)
qed

lemmas failure_simps =
  unauthorized_failure_def too_many_requests_failure_def gmail_status_def
  microsoft_status_def microsoft_code_def js_or_def response_status_def
  response_retry_after_def headers_retry_after_def property_of_def stringifiable_def

theorem normalizeError_status_kinds_witness:
  "normalized_kind (normalizeError (Thrown unauthorized_failure) ''gmail'') = Some AUTH_FAILED
   \<and> normalized_kind (normalizeError (Thrown unauthorized_failure) ''microsoft'')
       = Some AUTH_FAILED
   \<and> normalized_kind (normalizeError (Thrown too_many_requests_failure) ''gmail'')
       = Some RATE_LIMIT_EXCEEDED
   \<and> normalized_retryAfter (normalizeError (Thrown too_many_requests_failure) ''gmail'')
       = Some (Num 5)
   \<and> normalized_kind (normalizeError (Thrown too_many_requests_failure) ''microsoft'')
       = Some RATE_LIMIT_EXCEEDED
   \<and> normalized_retryAfter (normalizeError (Thrown too_many_requests_failure) ''microsoft'')
       = Some (Num 5)"
  using normalizeError_status_kinds [of "Thrown unauthorized_failure" unauthorized_failure]
    normalizeError_status_kinds
      [of "Thrown too_many_requests_failure" too_many_requests_failure]
  by (simp add: failure_simps)

text \<open>
  C1 as stated fails for the third adapter: under the tag \<open>imap\<close> no status table is
  consulted, and the simulated \<open>unauthorized\<close> response is classified \<open>UNKNOWN_ERROR\<close>.
\<close>

theorem normalizeError_imap_unauthorized_counterexample:
  "normalized_kind (normalizeError (Thrown unauthorized_failure) ''imap'') = Some UNKNOWN_ERROR"
  by (simp add: normalizeError_def normalized_kind_def generic_rules_def network_code_def
      BaseError_def unauthorized_failure_def raised_def)

text \<open>
  C5, as amended.  \<open>normalizeError\<close> is a function of its two arguments.  On a thrown
  value other than \<open>null\<close> and \<open>undefined\<close> whose message can be converted to a string, and
  whose retry-after header (of the response under the tag \<open>gmail\<close>, of the failure itself
  under the tag \<open>microsoft\<close>) is absent or can be converted to a string, it returns a
  classified error, for every tag.  When no rule of the tag's block and no connectivity
  code matches, the kind is \<open>UNKNOWN_ERROR\<close>; the message is the original message when
  that is a non-empty string, and the text \<open>An unknown error occurred\<close> when the original
  message is absent, empty or another value that counts as false.
\<close>

theorem normalizeError_total_fallback:
  assumes "properties error = Some e"
  shows "(stringifiable (message e)
          \<and> (provider = ''gmail'' \<longrightarrow> stringifiable (response_retry_after e))
          \<and> (provider = ''microsoft'' \<longrightarrow> stringifiable (headers_retry_after e)) \<longrightarrow>
            normalized_kind (normalizeError error provider) \<noteq> None)
       \<and> ((provider = ''gmail'' \<longrightarrow>
              gmail_status e \<notin> {JNum 401, JNum 403, JNum 404, JNum 429})
          \<and> (provider = ''microsoft'' \<longrightarrow>
              microsoft_status e \<notin> {JNum 401, JNum 403, JNum 404, JNum 429}
              \<and> microsoft_code e \<notin> {JStr ''InvalidAuthenticationToken'', JStr ''Forbidden'',
                   JStr ''ResourceNotFound'', JStr ''TooManyRequests''})
          \<and> \<not> network_code e \<longrightarrow>
            (stringifiable (message e) \<longrightarrow>
               normalized_kind (normalizeError error provider) = Some UNKNOWN_ERROR)
            \<and> (\<forall>m. message e = JStr m \<longrightarrow>
                 normalized_message (normalizeError error provider)
                   = Some (if m = [] then ''An unknown error occurred'' else m))
            \<and> (\<not> truthy (message e) \<longrightarrow>
                 normalized_message (normalizeError error provider)
                   = Some ''An unknown error occurred''))"
proof (intro conjI impI allI)
  assume s: "stringifiable (message e)
      \<and> (provider = ''gmail'' \<longrightarrow> stringifiable (response_retry_after e))
      \<and> (provider = ''microsoft'' \<longrightarrow> stringifiable (headers_retry_after e))"
  have "\<exists>c. normalizeError error provider = Inr c"
  proof (cases "if provider = ''gmail'' then gmail_rules error e provider else None")
    case (Some r)
    then have "provider = ''gmail''" and "gmail_rules error e provider = Some r"
      by (simp_all split: if_splits)
    with s obtain c where "r = Inr c"
      using gmail_rules_returns by blast
    with assms Some show ?thesis by (simp add: normalizeError_def)
  next
    case g: None
    show ?thesis
    proof (cases "if provider = ''microsoft'' then microsoft_rules error e provider else None")
      case (Some r)
      then have "provider = ''microsoft''" and "microsoft_rules error e provider = Some r"
        by (simp_all split: if_splits)
      with s obtain c where "r = Inr c"
        using microsoft_rules_returns by blast
      with assms g Some show ?thesis by (simp add: normalizeError_def)
    next
      case None
      with assms g s generic_rules_returns [of e error provider] show ?thesis
        by (simp add: normalizeError_def)
    qed
  qed
  then show "normalized_kind (normalizeError error provider) \<noteq> None"
    by (auto simp: normalized_kind_def)
next
  assume h: "(provider = ''gmail'' \<longrightarrow>
              gmail_status e \<notin> {JNum 401, JNum 403, JNum 404, JNum 429})
          \<and> (provider = ''microsoft'' \<longrightarrow>
              microsoft_status e \<notin> {JNum 401, JNum 403, JNum 404, JNum 429}
              \<and> microsoft_code e \<notin> {JStr ''InvalidAuthenticationToken'', JStr ''Forbidden'',
                   JStr ''ResourceNotFound'', JStr ''TooManyRequests''})
          \<and> \<not> network_code e"
  have g: "provider = ''gmail'' \<Longrightarrow> gmail_rules error e provider = None"
    using h by (simp add: gmail_rules_def)
  have ms: "provider = ''microsoft'' \<Longrightarrow> microsoft_rules error e provider = None"
    using h by (simp add: microsoft_rules_def)
  have n: "normalizeError error provider = generic_rules error e provider"
    using assms g ms by (simp add: normalizeError_def)
  {
    assume "stringifiable (message e)"
    then show "normalized_kind (normalizeError error provider) = Some UNKNOWN_ERROR"
      using h
      by (simp add: n normalized_kind_def generic_rules_def BaseError_def raised_def
          stringifiable_def split: sum.splits)
  }
  {
    fix m assume "message e = JStr m"
    then show "normalized_message (normalizeError error provider)
        = Some (if m = [] then ''An unknown error occurred'' else m)"
      using h
      by (simp add: n normalized_message_def generic_rules_def BaseError_def raised_def)
  }
  {
    assume "\<not> truthy (message e)"
    then show "normalized_message (normalizeError error provider)
        = Some ''An unknown error occurred''"
      using h
      by (simp add: n normalized_message_def generic_rules_def BaseError_def raised_def)
  }
qed

theorem normalizeError_total_fallback_witness:
  "normalized_kind (normalizeError (Thrown (error_object ''socket hang up'')) ''imap'')
     = Some UNKNOWN_ERROR
   \<and> normalized_message (normalizeError (Thrown (error_object ''socket hang up'')) ''imap'')
     = Some ''socket hang up''
   \<and> normalized_kind (normalizeError (Thrown (error_object ''socket hang up'')) ''gmail'')
     = Some UNKNOWN_ERROR
   \<and> normalized_message (normalizeError (Thrown (error_object [])) ''microsoft'')
     = Some ''An unknown error occurred''
   \<and> normalized_kind (normalizeError (Thrown too_many_requests_failure) ''gmail'') \<noteq> None"
  using normalizeError_total_fallback
      [of "Thrown (error_object ''socket hang up'')" "error_object ''socket hang up''" "''imap''"]
    normalizeError_total_fallback
      [of "Thrown (error_object ''socket hang up'')" "error_object ''socket hang up''" "''gmail''"]
    normalizeError_total_fallback
      [of "Thrown (error_object [])" "error_object []" "''microsoft''"]
    normalizeError_total_fallback
      [of "Thrown too_many_requests_failure" too_many_requests_failure "''gmail''"]
  by (simp add: error_object_def network_code_def failure_simps)

text \<open>
  C5 as stated fails.  On \<open>null\<close> and \<open>undefined\<close> the first property read throws.  On an
  object whose message is a symbol the conversion of the message to a string throws, in
  the fallback and in the connectivity rule; so does \<open>parseInt\<close> on a retry-after header
  that is a symbol.  In each case no classified error is returned.
\<close>

theorem normalizeError_throws_counterexample:
  "normalized_kind (normalizeError ThrownNull ''gmail'') = None
   \<and> normalized_kind (normalizeError ThrownUndefined ''imap'') = None
   \<and> normalized_kind (normalizeError (Thrown symbol_message_failure) ''imap'') = None
   \<and> normalized_kind (normalizeError (Thrown symbol_network_failure) ''microsoft'') = None
   \<and> normalized_kind (normalizeError (Thrown symbol_retry_failure) ''gmail'') = None"
  by (simp add: normalizeError_def normalized_kind_def symbol_message_failure_def
      symbol_network_failure_def symbol_retry_failure_def too_many_requests_failure_def
      error_object_def generic_rules_def network_code_def gmail_rules_def
      microsoft_rules_def gmail_status_def microsoft_status_def microsoft_code_def js_or_def
      response_status_def response_retry_after_def property_of_def retry_seconds_def
      raised_def)

section \<open>Properties of the direct-protocol adapter\<close>

text \<open>
  C4.  \<open>createLabel\<close> of the direct-protocol adapter fails with a classified error of kind
  \<open>OPERATION_FAILED\<close>, tagged \<open>imap\<close>, for every name and every colour, present or absent;
  it never returns a label.
\<close>

theorem imap_createLabel_fails:
  "\<exists>c. imap_createLabel label color = Inl (Classified c)
       \<and> sm_code c = OPERATION_FAILED \<and> sm_provider c = Some ''imap''"
  by (simp add: imap_createLabel_def)

section \<open>Properties of the facade\<close>

text \<open>
  C2, as amended.  A configuration whose discriminant is \<open>gmail\<close> or \<open>microsoft\<close> makes the
  constructor instantiate exactly the matching adapter, on that configuration.  A
  discriminant that names no backend at all makes construction itself fail, with a plain
  \<open>Error\<close> (not an error of the taxonomy) whose message is \<open>Unsupported provider type: \<close>
  followed by the discriminant.
\<close>

theorem SuperMail_dispatch:
  "(config_type config = ''gmail'' \<longrightarrow> SuperMail config = Inr (GmailProvider config))
   \<and> (config_type config = ''microsoft'' \<longrightarrow> SuperMail config = Inr (MicrosoftProvider config))
   \<and> (config_type config \<notin> {''gmail'', ''microsoft'', ''imap''} \<longrightarrow>
        SuperMail config
          = Inl (Thrown (error_object (''Unsupported provider type: '' @ config_type config))))"
  by (simp add: SuperMail_def createProvider_def)

theorem SuperMail_dispatch_witness:
  "SuperMail \<lparr>config_type = ''gmail''\<rparr> = Inr (GmailProvider \<lparr>config_type = ''gmail''\<rparr>)
   \<and> SuperMail \<lparr>config_type = ''microsoft''\<rparr>
       = Inr (MicrosoftProvider \<lparr>config_type = ''microsoft''\<rparr>)
   \<and> SuperMail \<lparr>config_type = ''yahoo''\<rparr>
       = Inl (Thrown (error_object ''Unsupported provider type: yahoo''))"
  using SuperMail_dispatch [of "\<lparr>config_type = ''gmail''\<rparr>"]
    SuperMail_dispatch [of "\<lparr>config_type = ''microsoft''\<rparr>"]
    SuperMail_dispatch [of "\<lparr>config_type = ''yahoo''\<rparr>"]
  by simp

text \<open>
  C2 as stated fails: for the unrecognized discriminant \<open>yahoo\<close> the constructor throws a
  plain \<open>Error\<close>, which has no kind, and not a classified error of kind
  \<open>OPERATION_FAILED\<close>.
\<close>

theorem SuperMail_unrecognized_counterexample:
  "SuperMail \<lparr>config_type = ''yahoo''\<rparr>
     = Inl (Thrown (error_object ''Unsupported provider type: yahoo''))
   \<and> thrown_kind (Thrown (error_object ''Unsupported provider type: yahoo'')) = None"
  by (simp add: SuperMail_def createProvider_def thrown_kind_def)

section \<open>Properties of the folder-native adapter\<close>

lemma find_SomeD: "find P xs = Some x \<Longrightarrow> x \<in> set xs \<and> P x"
  by (induction xs) (auto split: if_splits)

lemma rethrow_plain_microsoft:
  "rethrow (Thrown (error_object msg)) ''microsoft''
     = Classified (BaseError UNKNOWN_ERROR
         (if msg = [] then ''An unknown error occurred'' else msg) ''microsoft''
         (Thrown (error_object msg)))"
  by (simp add: rethrow_def normalizeError_def microsoft_rules_def microsoft_status_def
      microsoft_code_def js_or_def generic_rules_def network_code_def error_object_def
      raised_def)

lemmas simulated_graph_simps =
  simulated_graph_def graph_folder_def graph_category_def graph_message_def
  microsoft_listLabels_def microsoft_getEmail_def microsoft_listFolders_def
  microsoft_moveToFolder_def microsoft_deleteEmail_def convertGraphMessage_def
  try_catch_def await_def resolve_def reject_def

text \<open>
  C3, as amended.  Let \<open>listFolders\<close> succeed.  When it contains no folder named
  \<open>Archive\<close>, \<open>archiveEmail\<close> fails with a classified error of kind \<open>UNKNOWN_ERROR\<close> and
  message \<open>Archive folder not found\<close>.  When it contains no folder named \<open>Deleted Items\<close>,
  \<open>trashEmail\<close> does not fail for that reason: its outcome is that of the hard delete.
  When the reserved folder exists, the outcome of each operation is that of the move
  to the first folder of that name.
\<close>

theorem microsoft_archive_trash:
  assumes "microsoft_listFolders c s = (Inr folders, s1)"
  shows "(\<not> (\<exists>f \<in> set folders. folder_name f = ''Archive'') \<longrightarrow>
            microsoft_archiveEmail c emailId s
              = (Inl (Classified (BaseError UNKNOWN_ERROR ''Archive folder not found''
                   ''microsoft'' (Thrown (error_object ''Archive folder not found'')))), s1))
       \<and> (\<not> (\<exists>f \<in> set folders. folder_name f = ''Deleted Items'') \<longrightarrow>
            microsoft_trashEmail c emailId s
              = try_catch ''microsoft'' (microsoft_deleteEmail c emailId) s1)
       \<and> (\<forall>f. find (\<lambda>f. folder_name f = ''Archive'') folders = Some f \<longrightarrow>
            microsoft_archiveEmail c emailId s
              = try_catch ''microsoft''
                  (microsoft_moveToFolder c
                     \<lparr>move_emailId = emailId, move_folderId = folder_id f\<rparr>) s1)
       \<and> (\<forall>f. find (\<lambda>f. folder_name f = ''Deleted Items'') folders = Some f \<longrightarrow>
            microsoft_trashEmail c emailId s
              = try_catch ''microsoft''
                  (microsoft_moveToFolder c
                     \<lparr>move_emailId = emailId, move_folderId = folder_id f\<rparr>) s1)"
proof (intro conjI impI allI)
  assume "\<not> (\<exists>f \<in> set folders. folder_name f = ''Archive'')"
  then have "find (\<lambda>f. folder_name f = ''Archive'') folders = None"
    by (simp add: find_None_iff)
  then show "microsoft_archiveEmail c emailId s
      = (Inl (Classified (BaseError UNKNOWN_ERROR ''Archive folder not found''
           ''microsoft'' (Thrown (error_object ''Archive folder not found'')))), s1)"
    using assms
    by (simp add: microsoft_archiveEmail_def try_catch_def await_def reject_def
        rethrow_plain_microsoft)
next
  assume "\<not> (\<exists>f \<in> set folders. folder_name f = ''Deleted Items'')"
  then have "find (\<lambda>f. folder_name f = ''Deleted Items'') folders = None"
    by (simp add: find_None_iff)
  then show "microsoft_trashEmail c emailId s
      = try_catch ''microsoft'' (microsoft_deleteEmail c emailId) s1"
    using assms by (simp add: microsoft_trashEmail_def try_catch_def await_def)
next
  fix f assume "find (\<lambda>f. folder_name f = ''Archive'') folders = Some f"
  then show "microsoft_archiveEmail c emailId s
      = try_catch ''microsoft''
          (microsoft_moveToFolder c \<lparr>move_emailId = emailId, move_folderId = folder_id f\<rparr>) s1"
    using assms by (simp add: microsoft_archiveEmail_def try_catch_def await_def)
next
  fix f assume "find (\<lambda>f. folder_name f = ''Deleted Items'') folders = Some f"
  then show "microsoft_trashEmail c emailId s
      = try_catch ''microsoft''
          (microsoft_moveToFolder c \<lparr>move_emailId = emailId, move_folderId = folder_id f\<rparr>) s1"
    using assms by (simp add: microsoft_trashEmail_def try_catch_def await_def)
qed

theorem microsoft_archive_trash_witness:
  "microsoft_archiveEmail
      (simulated_graph [graph_folder ''f1'' ''Inbox''] [] (graph_message ''m1'' [])) ''m1'' []
     = (Inl (Classified (BaseError UNKNOWN_ERROR ''Archive folder not found'' ''microsoft''
          (Thrown (error_object ''Archive folder not found'')))), [GetMailFolders])
   \<and> microsoft_trashEmail
      (simulated_graph [graph_folder ''f1'' ''Inbox''] [] (graph_message ''m1'' [])) ''m1'' []
     = (Inr (), [GetMailFolders, DeleteMessage ''m1''])
   \<and> microsoft_archiveEmail
      (simulated_graph [graph_folder ''f1'' ''Inbox'', graph_folder ''f2'' ''Archive'',
         graph_folder ''f3'' ''Deleted Items''] [] (graph_message ''m1'' [])) ''m1'' []
     = (Inr (), [GetMailFolders, PostMove ''m1'' ''f2''])
   \<and> microsoft_trashEmail
      (simulated_graph [graph_folder ''f1'' ''Inbox'', graph_folder ''f2'' ''Archive'',
         graph_folder ''f3'' ''Deleted Items''] [] (graph_message ''m1'' [])) ''m1'' []
     = (Inr (), [GetMailFolders, PostMove ''m1'' ''f3''])"
  using microsoft_archive_trash
    [where c = "simulated_graph [graph_folder ''f1'' ''Inbox''] [] (graph_message ''m1'' [])"
       and s = "[]" and ?s1.0 = "[GetMailFolders]" and emailId = "''m1''"
       and folders = "[\<lparr>folder_id = ''f1'', folder_name = ''Inbox'', folder_parentId = None,
                        folder_unreadCount = None, folder_totalCount = None\<rparr>]"]
    microsoft_archive_trash
    [where c = "simulated_graph [graph_folder ''f1'' ''Inbox'', graph_folder ''f2'' ''Archive'',
                  graph_folder ''f3'' ''Deleted Items''] [] (graph_message ''m1'' [])"
       and s = "[]" and ?s1.0 = "[GetMailFolders]" and emailId = "''m1''"
       and folders = "[\<lparr>folder_id = ''f1'', folder_name = ''Inbox'', folder_parentId = None,
                        folder_unreadCount = None, folder_totalCount = None\<rparr>,
                       \<lparr>folder_id = ''f2'', folder_name = ''Archive'', folder_parentId = None,
                        folder_unreadCount = None, folder_totalCount = None\<rparr>,
                       \<lparr>folder_id = ''f3'', folder_name = ''Deleted Items'',
                        folder_parentId = None,
                        folder_unreadCount = None, folder_totalCount = None\<rparr>]"]
  by (simp add: simulated_graph_simps)

text \<open>
  C3 as stated fails: on a mailbox whose only folder is \<open>Inbox\<close>, \<open>archiveEmail\<close> is
  rejected with kind \<open>UNKNOWN_ERROR\<close>, not \<open>OPERATION_FAILED\<close>.
\<close>

theorem microsoft_archive_counterexample:
  "fst (microsoft_archiveEmail
      (simulated_graph [graph_folder ''f1'' ''Inbox''] [] (graph_message ''m1'' [])) ''m1'' [])
     = Inl (Classified (SuperMailError ''SuperMailError'' UNKNOWN_ERROR
         ''Archive folder not found'' (Some ''microsoft'') None
         (Some (Thrown (error_object ''Archive folder not found'')))))"
  by (simp add: microsoft_archiveEmail_def simulated_graph_simps rethrow_plain_microsoft
      BaseError_def)

lemma resolveNames_Nil: "resolveNames cats [] = []"
  by (simp add: resolveNames_def List.map_filter_simps)

lemma resolveNames_Cons:
  "resolveNames cats (i # ids) =
     (case find (\<lambda>c. label_id c = i) cats of
        None \<Rightarrow> resolveNames cats ids
      | Some c \<Rightarrow> if label_name c = [] then resolveNames cats ids
                  else label_name c # resolveNames cats ids)"
  by (simp add: resolveNames_def List.map_filter_simps split: option.splits)

lemma resolveNames_unresolved:
  "resolveNames cats ids = resolveNames cats (filter (\<lambda>i. \<exists>c \<in> set cats. label_id c = i) ids)"
proof (induction ids)
  case Nil
  show ?case by simp
next
  case (Cons i ids)
  show ?case
  proof (cases "find (\<lambda>c. label_id c = i) cats")
    case None
    then have "\<not> (\<exists>c \<in> set cats. label_id c = i)" by (simp add: find_None_iff)
    with None Cons show ?thesis by (simp add: resolveNames_Cons)
  next
    case (Some c)
    then have "\<exists>c \<in> set cats. label_id c = i" by (auto dest: find_SomeD)
    with Some Cons show ?thesis by (simp add: resolveNames_Cons)
  qed
qed

lemma resolveNames_names: "set (resolveNames cats ids) \<subseteq> label_name ` set cats"
proof (induction ids)
  case Nil
  show ?case by (simp add: resolveNames_Nil)
next
  case (Cons i ids)
  show ?case
  proof (cases "find (\<lambda>c. label_id c = i) cats")
    case None
    with Cons show ?thesis by (simp add: resolveNames_Cons)
  next
    case (Some c)
    then have "c \<in> set cats" by (auto dest: find_SomeD)
    with Some Cons show ?thesis by (auto simp: resolveNames_Cons)
  qed
qed

text \<open>
  C7.  Let \<open>cats\<close> be what \<open>listLabels\<close> returns.  \<open>addLabels\<close> patches the message with the
  names that the given ids resolve to, and \<open>removeLabels\<close> with the message's current
  categories less those names; the outcome of either is the outcome of that patch.
  The ids are resolved one by one, in their order: an id that is the id of no category
  is dropped, an id that is the id of a category contributes the name of the first such
  category of \<open>cats\<close> (nothing when that name is empty), and no ids give no names.  So
  the resolved names are names of \<open>cats\<close>, and they are the same with the ids that
  resolve to no category left out: such an id cannot make the operation fail.
\<close>

theorem microsoft_labels_resolved:
  "(microsoft_listLabels c s = (Inr cats, s1) \<longrightarrow>
      microsoft_addLabels c options s
        = try_catch ''microsoft''
            (patch_categories c (lbl_emailId options)
               (resolveNames cats (lbl_labelIds options))) s1)
   \<and> (microsoft_getEmail c (lbl_emailId options) s = (Inr msg, s1)
      \<and> microsoft_listLabels c s1 = (Inr cats, s2) \<longrightarrow>
      microsoft_removeLabels c options s
        = try_catch ''microsoft''
            (patch_categories c (lbl_emailId options)
               (filter (\<lambda>cat. cat \<notin> set (resolveNames cats (lbl_labelIds options)))
                  (case msg_labels msg of None \<Rightarrow> [] | Some l \<Rightarrow> l))) s2)
   \<and> resolveNames cats [] = []
   \<and> (\<not> (\<exists>cat \<in> set cats. label_id cat = i) \<longrightarrow>
        resolveNames cats (i # ids) = resolveNames cats ids)
   \<and> (\<forall>cat. find (\<lambda>cat. label_id cat = i) cats = Some cat \<longrightarrow>
        resolveNames cats (i # ids)
          = (if label_name cat = [] then resolveNames cats ids
             else label_name cat # resolveNames cats ids))
   \<and> resolveNames cats ids
       = resolveNames cats (filter (\<lambda>i. \<exists>c \<in> set cats. label_id c = i) ids)
   \<and> set (resolveNames cats ids) \<subseteq> label_name ` set cats"
proof (intro conjI impI allI)
  assume "microsoft_listLabels c s = (Inr cats, s1)"
  then show "microsoft_addLabels c options s
      = try_catch ''microsoft''
          (patch_categories c (lbl_emailId options)
             (resolveNames cats (lbl_labelIds options))) s1"
    by (auto simp: microsoft_addLabels_def try_catch_def await_def resolve_def
        split: prod.splits sum.splits)
next
  assume "microsoft_getEmail c (lbl_emailId options) s = (Inr msg, s1)
      \<and> microsoft_listLabels c s1 = (Inr cats, s2)"
  then show "microsoft_removeLabels c options s
      = try_catch ''microsoft''
          (patch_categories c (lbl_emailId options)
             (filter (\<lambda>cat. cat \<notin> set (resolveNames cats (lbl_labelIds options)))
                (case msg_labels msg of None \<Rightarrow> [] | Some l \<Rightarrow> l))) s2"
    by (auto simp: microsoft_removeLabels_def try_catch_def await_def resolve_def
        split: prod.splits sum.splits)
next
  show "resolveNames cats [] = []"
    by (rule resolveNames_Nil)
next
  assume "\<not> (\<exists>cat \<in> set cats. label_id cat = i)"
  then have "find (\<lambda>cat. label_id cat = i) cats = None"
    by (simp add: find_None_iff)
  then show "resolveNames cats (i # ids) = resolveNames cats ids"
    by (simp add: resolveNames_Cons)
next
  fix cat
  assume "find (\<lambda>cat. label_id cat = i) cats = Some cat"
  then show "resolveNames cats (i # ids)
      = (if label_name cat = [] then resolveNames cats ids
         else label_name cat # resolveNames cats ids)"
    by (simp add: resolveNames_Cons)
next
  show "resolveNames cats ids
      = resolveNames cats (filter (\<lambda>i. \<exists>c \<in> set cats. label_id c = i) ids)"
    by (rule resolveNames_unresolved)
next
  show "set (resolveNames cats ids) \<subseteq> label_name ` set cats"
    by (rule resolveNames_names)
qed

theorem microsoft_labels_resolved_witness:
  "microsoft_addLabels
      (simulated_graph [] [graph_category ''c1'' ''Work''] (graph_message ''m1'' [''Home'']))
      \<lparr>lbl_emailId = ''m1'', lbl_labelIds = [''c1'', ''c9'']\<rparr> []
     = (Inr (), [GetMasterCategories, PatchCategories ''m1'' [''Work'']])
   \<and> microsoft_removeLabels
      (simulated_graph [] [graph_category ''c1'' ''Work'']
         (graph_message ''m1'' [''Work'', ''Home'']))
      \<lparr>lbl_emailId = ''m1'', lbl_labelIds = [''c1'', ''c9'']\<rparr> []
     = (Inr (), [GetMessage ''m1'', GetMasterCategories, PatchCategories ''m1'' [''Home'']])
   \<and> resolveNames
        [\<lparr>label_id = ''c1'', label_name = ''Work'', label_color = None,
          label_type = Some ''user''\<rparr>] [''c1'', ''c9'']
     = [''Work'']"
  using microsoft_labels_resolved
    [where c = "simulated_graph [] [graph_category ''c1'' ''Work'']
                  (graph_message ''m1'' [''Home''])"
       and s = "[]" and ?s1.0 = "[GetMasterCategories]"
       and cats = "[\<lparr>label_id = ''c1'', label_name = ''Work'', label_color = None,
                     label_type = Some ''user''\<rparr>]"
       and options = "\<lparr>lbl_emailId = ''m1'', lbl_labelIds = [''c1'', ''c9'']\<rparr>"
       and i = "''c1''" and ids = "[''c9'']"]
    microsoft_labels_resolved
    [where cats = "[\<lparr>label_id = ''c1'', label_name = ''Work'', label_color = None,
                     label_type = Some ''user''\<rparr>]"
       and i = "''c9''" and ids = "[]"]
    microsoft_labels_resolved
    [where c = "simulated_graph [] [graph_category ''c1'' ''Work'']
                  (graph_message ''m1'' [''Work'', ''Home''])"
       and s = "[]" and ?s1.0 = "[GetMessage ''m1'']"
       and ?s2.0 = "[GetMessage ''m1'', GetMasterCategories]"
       and msg = "convertGraphMessage (graph_message ''m1'' [''Work'', ''Home''])"
       and cats = "[\<lparr>label_id = ''c1'', label_name = ''Work'', label_color = None,
                     label_type = Some ''user''\<rparr>]"
       and options = "\<lparr>lbl_emailId = ''m1'', lbl_labelIds = [''c1'', ''c9'']\<rparr>"]
  by (simp add: simulated_graph_simps resolveNames_Cons resolveNames_Nil)

section \<open>Properties of the label-organized adapter\<close>

lemma sample_getEmail:
  "gmail_getEmail (simulated_gmail stored sent l) i lg
     = (Inr (convertGmailMessage stored), lg @ [MessagesGet i])"
  by (simp add: gmail_getEmail_def simulated_gmail_def try_catch_def await_def resolve_def)

lemma sample_send:
  "messages_send (simulated_gmail stored sent l) r lg = (Inr sent, lg @ [MessagesSend r])"
  by (simp add: simulated_gmail_def)

lemma sample_subject: "msg_subject (convertGmailMessage (gmail_record ids subj)) = subj"
  by (simp add: convertGmailMessage_def gmail_record_def getHeader_def toLowerCase_def
      lower_char_def upper_letters_def lower_letters_def Let_def)

lemma sample_threadId: "msg_threadId (convertGmailMessage (gmail_record ids subj)) = Some ''t1''"
  by (simp add: convertGmailMessage_def gmail_record_def Let_def)

lemma fetch_each_converted:
  "fetch_each c ids s = (Inr ms, s1) \<Longrightarrow>
     \<forall>m \<in> set ms. \<exists>i s0 s0' g. messages_get c i s0 = (Inr g, s0') \<and> m = convertGmailMessage g"
proof (induction ids arbitrary: s ms)
  case Nil
  then show ?case by simp
next
  case (Cons a ids)
  show ?case
  proof (cases "a = None \<or> a = Some []")
    case True
    with Cons.prems have "fetch_each c ids s = (Inr ms, s1)" by auto
    then show ?thesis by (rule Cons.IH)
  next
    case False
    then obtain i where a: "a = Some i" "i \<noteq> []" by auto
    from Cons.prems a obtain full sa rest where
      g: "gmail_getEmail c i s = (Inr full, sa)" and
      r: "fetch_each c ids sa = (Inr rest, s1)" and
      ms: "ms = full # rest"
      by (auto split: prod.splits sum.splits)
    from g obtain gm where "messages_get c i s = (Inr gm, sa)" "full = convertGmailMessage gm"
      by (auto simp: gmail_getEmail_def try_catch_def await_def resolve_def
          split: prod.splits sum.splits)
    then have "\<exists>i s0 s0' g. messages_get c i s0 = (Inr g, s0') \<and> full = convertGmailMessage g"
      by blast
    with Cons.IH [OF r] ms show ?thesis by simp
  qed
qed

text \<open>
  C10.  A message that \<open>getEmail\<close> returns is the conversion of the backend record that
  the client returned, and so is every message of a list that \<open>listEmails\<close> returns.  The
  conversion of a record has \<open>isRead\<close> equal to the negation of the membership of \<open>UNREAD\<close>
  in the record's label ids, and \<open>labels\<close> equal to that list, or to the empty list when
  the record has none; a record without a list of label ids is read.
\<close>

theorem gmail_isRead_labels:
  "(gmail_getEmail c emailId s = (Inr m, s1) \<longrightarrow>
      (\<exists>g. messages_get c emailId s = (Inr g, s1) \<and> m = convertGmailMessage g))
   \<and> (gmail_listEmails c options s = (Inr r, s1) \<longrightarrow>
      (\<forall>m \<in> set (messages r).
         \<exists>i s0 s0' g. messages_get c i s0 = (Inr g, s0') \<and> m = convertGmailMessage g))
   \<and> msg_isRead (convertGmailMessage g)
       = Some (\<not> (case gm_labelIds g of None \<Rightarrow> False | Some l \<Rightarrow> ''UNREAD'' \<in> set l))
   \<and> msg_labels (convertGmailMessage g)
       = Some (case gm_labelIds g of None \<Rightarrow> [] | Some l \<Rightarrow> l)
   \<and> (gm_labelIds g = None \<longrightarrow> msg_isRead (convertGmailMessage g) = Some True)"
proof (intro conjI impI)
  assume "gmail_getEmail c emailId s = (Inr m, s1)"
  then show "\<exists>g. messages_get c emailId s = (Inr g, s1) \<and> m = convertGmailMessage g"
    by (auto simp: gmail_getEmail_def try_catch_def await_def resolve_def
        split: prod.splits sum.splits)
next
  assume "gmail_listEmails c options s = (Inr r, s1)"
  then obtain ids sa where "fetch_each c ids sa = (Inr (messages r), s1)"
    by (auto simp: gmail_listEmails_def try_catch_def await_def resolve_def
        split: prod.splits sum.splits)
  then show "\<forall>m \<in> set (messages r).
      \<exists>i s0 s0' g. messages_get c i s0 = (Inr g, s0') \<and> m = convertGmailMessage g"
    by (rule fetch_each_converted)
next
  show "msg_isRead (convertGmailMessage g)
      = Some (\<not> (case gm_labelIds g of None \<Rightarrow> False | Some l \<Rightarrow> ''UNREAD'' \<in> set l))"
    by (simp add: convertGmailMessage_def Let_def)
next
  show "msg_labels (convertGmailMessage g)
      = Some (case gm_labelIds g of None \<Rightarrow> [] | Some l \<Rightarrow> l)"
    by (simp add: convertGmailMessage_def Let_def)
next
  assume "gm_labelIds g = None"
  then show "msg_isRead (convertGmailMessage g) = Some True"
    by (simp add: convertGmailMessage_def Let_def)
qed

theorem gmail_isRead_labels_witness:
  "gmail_getEmail
      (simulated_gmail (gmail_record (Some [''INBOX'', ''UNREAD'']) ''hi'')
         (send_response None) [Some ''m1''])
      ''m1'' []
     = (Inr (convertGmailMessage (gmail_record (Some [''INBOX'', ''UNREAD'']) ''hi'')),
        [MessagesGet ''m1''])
   \<and> msg_isRead (convertGmailMessage (gmail_record (Some [''INBOX'', ''UNREAD'']) ''hi''))
       = Some False
   \<and> msg_labels (convertGmailMessage (gmail_record (Some [''INBOX'', ''UNREAD'']) ''hi''))
       = Some [''INBOX'', ''UNREAD'']
   \<and> msg_isRead (convertGmailMessage (gmail_record None ''hi'')) = Some True
   \<and> msg_labels (convertGmailMessage (gmail_record None ''hi'')) = Some []"
  using gmail_isRead_labels
    [where c = "simulated_gmail (gmail_record (Some [''INBOX'', ''UNREAD'']) ''hi'')
                  (send_response None) [Some ''m1'']"
       and emailId = "''m1''" and s = "[]" and ?s1.0 = "[MessagesGet ''m1'']"
       and m = "convertGmailMessage (gmail_record (Some [''INBOX'', ''UNREAD'']) ''hi'')"
       and g = "gmail_record (Some [''INBOX'', ''UNREAD'']) ''hi''"
       and options = "\<lparr>lo_maxResults = None, lo_pageToken = None, lo_labelIds = None,
                        lo_query = None, lo_unreadOnly = None\<rparr>"
       and r = "\<lparr>messages = [], nextPageToken = None, totalCount = None\<rparr>"]
    gmail_isRead_labels
    [where c = "simulated_gmail (gmail_record (Some [''INBOX'', ''UNREAD'']) ''hi'')
                  (send_response None) [Some ''m1'']"
       and emailId = "''m1''" and s = "[]" and ?s1.0 = "[MessagesGet ''m1'']"
       and m = "convertGmailMessage (gmail_record (Some [''INBOX'', ''UNREAD'']) ''hi'')"
       and g = "gmail_record None ''hi''"
       and options = "\<lparr>lo_maxResults = None, lo_pageToken = None, lo_labelIds = None,
                        lo_query = None, lo_unreadOnly = None\<rparr>"
       and r = "\<lparr>messages = [], nextPageToken = None, totalCount = None\<rparr>"]
  by (simp add: sample_getEmail gmail_record_def)

text \<open>
  C6, as amended.  When \<open>getEmail\<close> returns the original message and the backend accepts
  the submission, \<open>replyToEmail\<close> has submitted a message whose header block has the line
  \<open>Subject: Re: \<close> followed by the original subject, together with the original message's
  thread identifier; the returned message has the subject \<open>Re: \<close> followed by the original
  subject, whether or not that subject is already so prefixed, and the thread identifier
  that the backend's response reports.
\<close>

theorem gmail_reply_thread_subject:
  assumes "gmail_getEmail c emailId s = (Inr original, s1)"
    and "messages_send c
           \<lparr>raw = encodeMessage rt
                    (createMimeMessage rt
                       (options\<lparr>so_subject := ''Re: '' @ msg_subject original\<rparr>)),
            send_threadId = msg_threadId original\<rparr> s1 = (Inr sent, s2)"
  shows "(\<exists>m. gmail_replyToEmail rt c emailId options s = (Inr m, s2)
            \<and> msg_subject m = ''Re: '' @ msg_subject original
            \<and> msg_threadId m = gm_threadId sent)
       \<and> ''Subject: Re: '' @ msg_subject original
            \<in> set (mimeHeaders rt (options\<lparr>so_subject := ''Re: '' @ msg_subject original\<rparr>))"
  using assms
  by (simp add: gmail_replyToEmail_def try_catch_def await_def resolve_def mimeHeaders_def)

theorem gmail_reply_thread_subject_witness:
  "gmail_replyToEmail plain_runtime
      (simulated_gmail (gmail_record None ''hi'') (send_response (Some ''t1'')) [])
      ''m1'' reply_options []
     = (Inr \<lparr>msg_id = Some ''m2'', msg_threadId = Some ''t1'', msg_subject = ''Re: hi'',
             msg_from = None, msg_to = [\<lparr>email = ''ann@example.com'', name = None\<rparr>],
             msg_cc = None, msg_bcc = None, msg_isRead = None,
             msg_labels = Some [''SENT'']\<rparr>,
        [MessagesGet ''m1'',
         MessagesSend
           \<lparr>raw = encodeMessage plain_runtime
                    (createMimeMessage plain_runtime
                       (reply_options\<lparr>so_subject := ''Re: hi''\<rparr>)),
            send_threadId = Some ''t1''\<rparr>])"
  using gmail_reply_thread_subject
    [where c = "simulated_gmail (gmail_record None ''hi'') (send_response (Some ''t1'')) []"
       and rt = plain_runtime and emailId = "''m1''" and options = reply_options
       and s = "[]" and ?s1.0 = "[MessagesGet ''m1'']"
       and original = "convertGmailMessage (gmail_record None ''hi'')"
       and sent = "send_response (Some ''t1'')"
       and ?s2.0 = "[MessagesGet ''m1'',
         MessagesSend
           \<lparr>raw = encodeMessage plain_runtime
                    (createMimeMessage plain_runtime
                       (reply_options\<lparr>so_subject := ''Re: hi''\<rparr>)),
            send_threadId = Some ''t1''\<rparr>]"]
  by (simp add: gmail_replyToEmail_def sample_getEmail sample_send sample_subject
      sample_threadId send_response_def reply_options_def try_catch_def await_def
      resolve_def)

text \<open>
  C6 as stated fails: the reply to a message whose subject is \<open>Re: hi\<close> is submitted and
  returned with the subject \<open>Re: Re: hi\<close>; and when the backend's response reports no
  thread identifier the returned message has none, although the submission carried the
  original's.
\<close>

theorem gmail_reply_prefix_counterexample:
  "gmail_replyToEmail plain_runtime
      (simulated_gmail (gmail_record None ''Re: hi'') (send_response None) [])
      ''m1'' reply_options []
     = (Inr \<lparr>msg_id = Some ''m2'', msg_threadId = None, msg_subject = ''Re: Re: hi'',
             msg_from = None, msg_to = [\<lparr>email = ''ann@example.com'', name = None\<rparr>],
             msg_cc = None, msg_bcc = None, msg_isRead = None,
             msg_labels = Some [''SENT'']\<rparr>,
        [MessagesGet ''m1'',
         MessagesSend
           \<lparr>raw = encodeMessage plain_runtime
                    (createMimeMessage plain_runtime
                       (reply_options\<lparr>so_subject := ''Re: Re: hi''\<rparr>)),
            send_threadId = Some ''t1''\<rparr>])"
  by (simp add: gmail_replyToEmail_def sample_getEmail sample_send sample_subject
      sample_threadId send_response_def reply_options_def try_catch_def await_def
      resolve_def)

section \<open>Properties of the colour conversions\<close>

text \<open>The loop over the entries of a table: when every distance is a number, the result
  belongs to an entry to which no entry is strictly closer.\<close>

lemma closer_invariant:
  assumes fin: "\<forall>e \<in> set (seen @ rest). \<exists>d. colorDistance t (hexToRgb (fst e)) = Sqrt d"
    and inv: "(seen = [] \<and> snd acc = Infinity)
        \<or> (\<exists>e \<in> set seen. acc = (snd e, colorDistance t (hexToRgb (fst e)))
              \<and> (\<forall>e' \<in> set seen. \<not> js_less (colorDistance t (hexToRgb (fst e')))
                                      (colorDistance t (hexToRgb (fst e)))))"
  shows "(seen @ rest = [] \<and> snd (foldl (closer t) acc rest) = Infinity)
        \<or> (\<exists>e \<in> set (seen @ rest).
              foldl (closer t) acc rest = (snd e, colorDistance t (hexToRgb (fst e)))
              \<and> (\<forall>e' \<in> set (seen @ rest). \<not> js_less (colorDistance t (hexToRgb (fst e')))
                                      (colorDistance t (hexToRgb (fst e)))))"
  using assms
proof (induction rest arbitrary: seen acc)
  case Nil
  then show ?case by simp
next
  case (Cons x rest)
  obtain dx where dx: "colorDistance t (hexToRgb (fst x)) = Sqrt dx"
    using Cons.prems(1) by auto
  have step: "(seen @ [x] = [] \<and> snd (closer t acc x) = Infinity)
        \<or> (\<exists>e \<in> set (seen @ [x]). closer t acc x = (snd e, colorDistance t (hexToRgb (fst e)))
              \<and> (\<forall>e' \<in> set (seen @ [x]). \<not> js_less (colorDistance t (hexToRgb (fst e')))
                                      (colorDistance t (hexToRgb (fst e)))))"
  proof (cases "seen = [] \<and> snd acc = Infinity")
    case True
    then show ?thesis by (simp add: closer_def dx)
  next
    case False
    with Cons.prems(2) obtain e where e: "e \<in> set seen"
      "acc = (snd e, colorDistance t (hexToRgb (fst e)))"
      "\<forall>e' \<in> set seen. \<not> js_less (colorDistance t (hexToRgb (fst e')))
                                      (colorDistance t (hexToRgb (fst e)))"
      by blast
    obtain de where de: "colorDistance t (hexToRgb (fst e)) = Sqrt de"
      using Cons.prems(1) e(1) by auto
    show ?thesis
    proof (cases "dx < de")
      case True
      have "\<forall>e' \<in> set seen. \<not> js_less (colorDistance t (hexToRgb (fst e'))) (Sqrt dx)"
      proof
        fix e' assume e': "e' \<in> set seen"
        obtain d' where d': "colorDistance t (hexToRgb (fst e')) = Sqrt d'"
          using Cons.prems(1) e' by auto
        from e(3) e' have "\<not> d' < de" by (auto simp: d' de)
        with True show "\<not> js_less (colorDistance t (hexToRgb (fst e'))) (Sqrt dx)"
          by (simp add: d')
      qed
      then have "\<forall>e' \<in> set (seen @ [x]). \<not> js_less (colorDistance t (hexToRgb (fst e')))
                                      (colorDistance t (hexToRgb (fst x)))"
        by (simp add: dx)
      moreover have "closer t acc x = (snd x, colorDistance t (hexToRgb (fst x)))"
        using True by (simp add: closer_def dx e(2) de)
      ultimately show ?thesis
        by (intro disjI2 bexI [of _ x]) simp_all
    next
      case False
      then have same: "closer t acc x = acc"
        by (simp add: closer_def dx e(2) de)
      have "\<forall>e' \<in> set (seen @ [x]). \<not> js_less (colorDistance t (hexToRgb (fst e')))
                                      (colorDistance t (hexToRgb (fst e)))"
        using e(3) False by (simp add: dx de)
      with e(1,2) same show ?thesis
        by (intro disjI2 bexI [of _ e]) simp_all
    qed
  qed
  have "\<forall>e \<in> set ((seen @ [x]) @ rest). \<exists>d. colorDistance t (hexToRgb (fst e)) = Sqrt d"
    using Cons.prems(1) by simp
  from Cons.IH [OF this step] show ?case by simp
qed

lemma closest_minimal:
  assumes "\<forall>e \<in> set table. \<exists>d. colorDistance t (hexToRgb (fst e)) = Sqrt d"
    and "table \<noteq> []"
  shows "\<exists>e \<in> set table. closest t table d0 = snd e
           \<and> (\<forall>e' \<in> set table. \<not> js_less (colorDistance t (hexToRgb (fst e')))
                                   (colorDistance t (hexToRgb (fst e))))"
proof -
  have "([] @ table = [] \<and> snd (foldl (closer t) (d0, Infinity) table) = Infinity)
        \<or> (\<exists>e \<in> set ([] @ table).
              foldl (closer t) (d0, Infinity) table = (snd e, colorDistance t (hexToRgb (fst e)))
              \<and> (\<forall>e' \<in> set ([] @ table). \<not> js_less (colorDistance t (hexToRgb (fst e')))
                                      (colorDistance t (hexToRgb (fst e)))))"
    by (rule closer_invariant) (use assms in simp_all)
  with assms(2) obtain e where "e \<in> set table"
    "foldl (closer t) (d0, Infinity) table = (snd e, colorDistance t (hexToRgb (fst e)))"
    "\<forall>e' \<in> set table. \<not> js_less (colorDistance t (hexToRgb (fst e')))
                                      (colorDistance t (hexToRgb (fst e)))"
    by auto
  then show ?thesis
    by (intro bexI [of _ e]) (simp_all add: closest_def)
qed

lemma closest_member:
  "closest t table d0 = d0 \<or> closest t table d0 \<in> snd ` set table"
proof -
  have "fst (foldl (closer t) acc table) = fst acc
      \<or> fst (foldl (closer t) acc table) \<in> snd ` set table" for acc :: "'a \<times> distance"
  proof (induction table arbitrary: acc)
    case Nil
    show ?case by simp
  next
    case (Cons x table)
    from Cons [of "closer t acc x"] show ?case
      by (auto simp: closer_def Let_def split: if_splits)
  qed
  from this [of "(d0, Infinity)"] show ?thesis by (simp add: closest_def)
qed


lemma hex_digit_facts:
  assumes "is_digit 16 c"
  shows "\<not> is_space c" "c \<noteq> CHR ''-''" "c \<noteq> CHR ''+''" "c \<noteq> CHR ''x''" "c \<noteq> CHR ''X''"
  using assms
  by (auto simp: is_digit_def digit_val_def is_space_def Let_def split: if_splits)

lemma parseInt_hex_pair:
  assumes "is_digit 16 a" "is_digit 16 b"
  shows "\<exists>n. parseInt [a, b] (Some 16) = Num n"
  using assms hex_digit_facts [OF assms(1)] hex_digit_facts(4,5) [OF assms(2)]
  by (simp add: parseInt_def)

lemma hex_color_rgb:
  assumes "hex_color s"
  shows "\<exists>r g b. hexToRgb s = (Num r, Num g, Num b)"
proof -
  from assms obtain h c1 c2 c3 c4 c5 c6 where s: "s = [h, c1, c2, c3, c4, c5, c6]"
    by (auto simp: hex_color_def length_Suc_conv eval_nat_numeral)
  with assms have d: "is_digit 16 c1" "is_digit 16 c2" "is_digit 16 c3" "is_digit 16 c4"
    "is_digit 16 c5" "is_digit 16 c6"
    by (simp_all add: hex_color_def)
  from parseInt_hex_pair [OF d(1,2)] parseInt_hex_pair [OF d(3,4)] parseInt_hex_pair [OF d(5,6)]
  show ?thesis by (auto simp: hexToRgb_def slice_def s)
qed

lemmas digit_simps = is_digit_def digit_val_def

lemma colorPalette_keys: "\<forall>e \<in> set colorPalette. hex_color (fst e)"
  by (simp add: colorPalette_def hex_color_def startsWith_def digit_simps)

lemma colorMap_keys: "\<forall>e \<in> set colorMap. hex_color (fst e)"
  by (simp add: colorMap_def hex_color_def startsWith_def digit_simps)

lemma colorPalette_filter:
  "filter (\<lambda>entry. startsWith (fst entry) ''#'') colorPalette = colorPalette"
  by (simp add: colorPalette_def startsWith_def)


lemma hex_color_not_member:
  assumes "hex_color n"
  shows "n \<noteq> ''constructor''" "n \<noteq> ''__proto__''" "startsWith n ''#''" "length n = 7"
  using assms by (auto simp: hex_color_def)

lemma gmail_default_member: "gmail_color ''#fb4c2f'' ''#ffffff'' \<in> snd ` set colorPalette"
  by (simp add: colorPalette_def)

lemma preset_default_member: "''preset0'' \<in> snd ` set colorMap"
  by (simp add: colorMap_def)

lemma gmail_color_member:
  assumes "toLowerCase hexColor \<notin> {''constructor'', ''__proto__''}"
  shows "\<exists>v \<in> snd ` set colorPalette. convertToGmailColor hexColor = Entry v"
proof (cases "map_of colorPalette (toLowerCase hexColor)")
  case (Some v)
  then have "v \<in> snd ` set colorPalette" by (force dest: map_of_SomeD)
  with Some show ?thesis by (simp add: convertToGmailColor_def object_lookup_def)
next
  case None
  have "closest (hexToRgb (toLowerCase hexColor)) colorPalette (gmail_color ''#fb4c2f'' ''#ffffff'')
      \<in> snd ` set colorPalette"
  proof (rule disjE [OF closest_member])
    assume "closest (hexToRgb (toLowerCase hexColor)) colorPalette
        (gmail_color ''#fb4c2f'' ''#ffffff'') = gmail_color ''#fb4c2f'' ''#ffffff''"
    then show ?thesis using gmail_default_member by simp
  qed
  moreover have "convertToGmailColor hexColor
      = Entry (if startsWith (toLowerCase hexColor) ''#'' \<and> length (toLowerCase hexColor) = 7
               then closest (hexToRgb (toLowerCase hexColor)) colorPalette
                      (gmail_color ''#fb4c2f'' ''#ffffff'')
               else gmail_color ''#fb4c2f'' ''#ffffff'')"
    using None assms
    by (simp add: convertToGmailColor_def object_lookup_def colorPalette_filter Let_def)
  ultimately show ?thesis using gmail_default_member by (simp split: if_splits)
qed

lemma table_minimal:
  assumes keys: "\<forall>e \<in> set table. hex_color (fst e)" and ne: "table \<noteq> []"
    and n: "hex_color n"
  shows "\<exists>e \<in> set table. closest (hexToRgb n) table d0 = snd e
           \<and> (\<forall>e' \<in> set table. \<not> js_less (colorDistance (hexToRgb n) (hexToRgb (fst e')))
                                   (colorDistance (hexToRgb n) (hexToRgb (fst e))))"
proof (rule closest_minimal)
  show "\<forall>e \<in> set table. \<exists>d. colorDistance (hexToRgb n) (hexToRgb (fst e)) = Sqrt d"
  proof
    fix e assume "e \<in> set table"
    with keys have "hex_color (fst e)" by simp
    from hex_color_rgb [OF n] hex_color_rgb [OF this]
    show "\<exists>d. colorDistance (hexToRgb n) (hexToRgb (fst e)) = Sqrt d" by auto
  qed
qed (rule ne)

lemma gmail_color_nearest:
  assumes "hex_color (toLowerCase hexColor)" "map_of colorPalette (toLowerCase hexColor) = None"
  shows "\<exists>e \<in> set colorPalette. convertToGmailColor hexColor = Entry (snd e)
           \<and> (\<forall>e' \<in> set colorPalette.
                 \<not> js_less (colorDistance (hexToRgb (toLowerCase hexColor)) (hexToRgb (fst e')))
                           (colorDistance (hexToRgb (toLowerCase hexColor)) (hexToRgb (fst e))))"
proof -
  have "colorPalette \<noteq> []" by (simp add: colorPalette_def)
  from table_minimal [OF colorPalette_keys this assms(1),
      of "gmail_color ''#fb4c2f'' ''#ffffff''"]
  show ?thesis
    using assms hex_color_not_member [OF assms(1)]
    by (simp add: convertToGmailColor_def object_lookup_def colorPalette_filter)
qed

lemma startsWith_preset_lower:
  assumes "startsWith col ''preset''"
  shows "\<not> startsWith (toLowerCase col) ''#''"
proof -
  from assms obtain rest where "col = ''preset'' @ rest"
    by (metis append_take_drop_id startsWith_def)
  then show ?thesis
    by (simp add: toLowerCase_def startsWith_def lower_char_def upper_letters_def
        lower_letters_def)
qed

lemma preset_color_member:
  assumes "col \<noteq> []" "\<not> startsWith col ''preset''"
    "toLowerCase col \<notin> {''constructor'', ''__proto__''}"
  shows "\<exists>v \<in> snd ` set colorMap. convertColorToPreset (Some col) = Entry v"
proof (cases "map_of colorMap (toLowerCase col)")
  case (Some v)
  then have "v \<in> snd ` set colorMap" by (force dest: map_of_SomeD)
  with Some assms show ?thesis by (simp add: convertColorToPreset_def object_lookup_def)
next
  case None
  have "closest (hexToRgb (toLowerCase col)) colorMap ''preset0'' \<in> snd ` set colorMap"
  proof (rule disjE [OF closest_member])
    assume "closest (hexToRgb (toLowerCase col)) colorMap ''preset0'' = ''preset0''"
    then show ?thesis using preset_default_member by simp
  qed
  moreover have "convertColorToPreset (Some col)
      = Entry (if startsWith (toLowerCase col) ''#'' \<and> length (toLowerCase col) = 7
               then closest (hexToRgb (toLowerCase col)) colorMap ''preset0''
               else ''preset0'')"
    using None assms
    by (simp add: convertColorToPreset_def object_lookup_def Let_def)
  ultimately show ?thesis using preset_default_member by (simp split: if_splits)
qed

lemma preset_color_nearest:
  assumes "hex_color (toLowerCase col)" "map_of colorMap (toLowerCase col) = None"
  shows "\<exists>e \<in> set colorMap. convertColorToPreset (Some col) = Entry (snd e)
           \<and> (\<forall>e' \<in> set colorMap.
                 \<not> js_less (colorDistance (hexToRgb (toLowerCase col)) (hexToRgb (fst e')))
                           (colorDistance (hexToRgb (toLowerCase col)) (hexToRgb (fst e))))"
proof -
  have ne: "colorMap \<noteq> []" by (simp add: colorMap_def)
  have "col \<noteq> []" using assms(1) by (auto simp: hex_color_def toLowerCase_def)
  moreover have "\<not> startsWith col ''preset''"
    using startsWith_preset_lower [of col] hex_color_not_member(3) [OF assms(1)] by blast
  ultimately show ?thesis
    using table_minimal [OF colorMap_keys ne assms(1), of "''preset0''"]
      assms hex_color_not_member [OF assms(1)]
    by (simp add: convertColorToPreset_def object_lookup_def)
qed


lemma gmail_color_fallback:
  assumes "map_of colorPalette (toLowerCase col) = None"
    "toLowerCase col \<notin> {''constructor'', ''__proto__''}"
    "\<not> (startsWith (toLowerCase col) ''#'' \<and> length col = 7)"
  shows "convertToGmailColor col = Entry (gmail_color ''#fb4c2f'' ''#ffffff'')"
  using assms
  by (auto simp: convertToGmailColor_def object_lookup_def Let_def toLowerCase_def)

lemma preset_color_fallback:
  assumes "col \<noteq> []" "\<not> startsWith col ''preset''"
    "map_of colorMap (toLowerCase col) = None"
    "toLowerCase col \<notin> {''constructor'', ''__proto__''}"
    "\<not> (startsWith (toLowerCase col) ''#'' \<and> length col = 7)"
  shows "convertColorToPreset (Some col) = Entry ''preset0''"
  using assms
  by (auto simp: convertColorToPreset_def object_lookup_def Let_def toLowerCase_def)

text \<open>
  C8, as amended.  For the label-organized and the folder-native adapter:
  \<^item> the converted colour is a value of the adapter's table for every colour string whose
    lower-case form is not \<open>constructor\<close> or \<open>__proto__\<close> (and, for the folder-native
    adapter, that is not empty and does not start with \<open>preset\<close>);
  \<^item> for a colour string that is not a key of the table and whose lower-case form is \<open>#\<close>
    and six hexadecimal digits, the converted colour is the value of an entry whose key
    no other key of the table is closer to, in Euclidean RGB distance;
  \<^item> a colour string that is not a key of the table, and does not start with \<open>#\<close> or is
    not seven characters long, is converted to the default entry;
  \<^item> \<open>createLabel\<close> submits the converted colour and succeeds whenever the backend
    accepts the request: it never fails on account of the colour.
\<close>

theorem createLabel_color:
  "(toLowerCase col \<notin> {''constructor'', ''__proto__''} \<longrightarrow>
      (\<exists>v \<in> snd ` set colorPalette. convertToGmailColor col = Entry v))
   \<and> (hex_color (toLowerCase col) \<and> map_of colorPalette (toLowerCase col) = None \<longrightarrow>
      (\<exists>e \<in> set colorPalette. convertToGmailColor col = Entry (snd e)
         \<and> (\<forall>e' \<in> set colorPalette.
               \<not> js_less (colorDistance (hexToRgb (toLowerCase col)) (hexToRgb (fst e')))
                         (colorDistance (hexToRgb (toLowerCase col)) (hexToRgb (fst e))))))
   \<and> (map_of colorPalette (toLowerCase col) = None
      \<and> toLowerCase col \<notin> {''constructor'', ''__proto__''}
      \<and> \<not> (startsWith (toLowerCase col) ''#'' \<and> length col = 7) \<longrightarrow>
      convertToGmailColor col = Entry (gmail_color ''#fb4c2f'' ''#ffffff''))
   \<and> (col \<noteq> []
      \<and> labels_create cg
           \<lparr>create_name = label, labelListVisibility = ''labelShow'',
            messageListVisibility = ''show'',
            create_color = Some (convertToGmailColor col)\<rparr> s = (Inr created, s1) \<longrightarrow>
      gmail_createLabel cg label (Some col) s
        = (Inr \<lparr>label_id = gl_id created, label_name = gl_name created,
                label_color = gl_backgroundColor created, label_type = Some ''user''\<rparr>, s1))
   \<and> (col \<noteq> [] \<and> \<not> startsWith col ''preset''
      \<and> toLowerCase col \<notin> {''constructor'', ''__proto__''} \<longrightarrow>
      (\<exists>v \<in> snd ` set colorMap. convertColorToPreset (Some col) = Entry v))
   \<and> (hex_color (toLowerCase col) \<and> map_of colorMap (toLowerCase col) = None \<longrightarrow>
      (\<exists>e \<in> set colorMap. convertColorToPreset (Some col) = Entry (snd e)
         \<and> (\<forall>e' \<in> set colorMap.
               \<not> js_less (colorDistance (hexToRgb (toLowerCase col)) (hexToRgb (fst e')))
                         (colorDistance (hexToRgb (toLowerCase col)) (hexToRgb (fst e))))))
   \<and> (col \<noteq> [] \<and> \<not> startsWith col ''preset''
      \<and> map_of colorMap (toLowerCase col) = None
      \<and> toLowerCase col \<notin> {''constructor'', ''__proto__''}
      \<and> \<not> (startsWith (toLowerCase col) ''#'' \<and> length col = 7) \<longrightarrow>
      convertColorToPreset (Some col) = Entry ''preset0'')
   \<and> (post_masterCategories cm label (convertColorToPreset (Some col)) t
        = (Inr category, t1) \<longrightarrow>
      microsoft_createLabel cm label (Some col) t
        = (Inr \<lparr>label_id = gc_id category, label_name = gc_displayName category,
                label_color = gc_color category, label_type = Some ''user''\<rparr>, t1))"
proof (intro conjI impI)
  assume "toLowerCase col \<notin> {''constructor'', ''__proto__''}"
  then show "\<exists>v \<in> snd ` set colorPalette. convertToGmailColor col = Entry v"
    by (rule gmail_color_member)
next
  assume "hex_color (toLowerCase col) \<and> map_of colorPalette (toLowerCase col) = None"
  then show "\<exists>e \<in> set colorPalette. convertToGmailColor col = Entry (snd e)
         \<and> (\<forall>e' \<in> set colorPalette.
               \<not> js_less (colorDistance (hexToRgb (toLowerCase col)) (hexToRgb (fst e')))
                         (colorDistance (hexToRgb (toLowerCase col)) (hexToRgb (fst e))))"
    using gmail_color_nearest by blast
next
  assume "map_of colorPalette (toLowerCase col) = None
      \<and> toLowerCase col \<notin> {''constructor'', ''__proto__''}
      \<and> \<not> (startsWith (toLowerCase col) ''#'' \<and> length col = 7)"
  then show "convertToGmailColor col = Entry (gmail_color ''#fb4c2f'' ''#ffffff'')"
    using gmail_color_fallback by blast
next
  assume "col \<noteq> []
      \<and> labels_create cg
           \<lparr>create_name = label, labelListVisibility = ''labelShow'',
            messageListVisibility = ''show'',
            create_color = Some (convertToGmailColor col)\<rparr> s = (Inr created, s1)"
  then show "gmail_createLabel cg label (Some col) s
        = (Inr \<lparr>label_id = gl_id created, label_name = gl_name created,
                label_color = gl_backgroundColor created, label_type = Some ''user''\<rparr>, s1)"
    by (simp add: gmail_createLabel_def try_catch_def await_def resolve_def)
next
  assume "col \<noteq> [] \<and> \<not> startsWith col ''preset''
      \<and> toLowerCase col \<notin> {''constructor'', ''__proto__''}"
  then show "\<exists>v \<in> snd ` set colorMap. convertColorToPreset (Some col) = Entry v"
    using preset_color_member by blast
next
  assume "hex_color (toLowerCase col) \<and> map_of colorMap (toLowerCase col) = None"
  then show "\<exists>e \<in> set colorMap. convertColorToPreset (Some col) = Entry (snd e)
         \<and> (\<forall>e' \<in> set colorMap.
               \<not> js_less (colorDistance (hexToRgb (toLowerCase col)) (hexToRgb (fst e')))
                         (colorDistance (hexToRgb (toLowerCase col)) (hexToRgb (fst e))))"
    using preset_color_nearest by blast
next
  assume "col \<noteq> [] \<and> \<not> startsWith col ''preset''
      \<and> map_of colorMap (toLowerCase col) = None
      \<and> toLowerCase col \<notin> {''constructor'', ''__proto__''}
      \<and> \<not> (startsWith (toLowerCase col) ''#'' \<and> length col = 7)"
  then show "convertColorToPreset (Some col) = Entry ''preset0''"
    using preset_color_fallback by blast
next
  assume "post_masterCategories cm label (convertColorToPreset (Some col)) t
        = (Inr category, t1)"
  then show "microsoft_createLabel cm label (Some col) t
        = (Inr \<lparr>label_id = gc_id category, label_name = gc_displayName category,
                label_color = gc_color category, label_type = Some ''user''\<rparr>, t1)"
    by (simp add: microsoft_createLabel_def try_catch_def await_def resolve_def)
qed

lemma sample_gmail_color:
  "convertToGmailColor ''#FF8801'' = Entry (gmail_color ''#ffc8af'' ''#ffffff'')"
  by code_simp

lemma sample_preset_color: "convertColorToPreset (Some ''#123456'') = Entry ''preset20''"
  by code_simp

theorem createLabel_color_witness:
  "convertToGmailColor ''#FF8801'' = Entry (gmail_color ''#ffc8af'' ''#ffffff'')
   \<and> convertColorToPreset (Some ''#123456'') = Entry ''preset20''
   \<and> gmail_createLabel
        (simulated_gmail (gmail_record None ''hi'') (send_response None) [])
        ''Work'' (Some ''#FF8801'') []
      = (Inr \<lparr>label_id = ''Label_1'', label_name = ''Work'', label_color = None,
              label_type = Some ''user''\<rparr>,
         [LabelsCreate
            \<lparr>create_name = ''Work'', labelListVisibility = ''labelShow'',
             messageListVisibility = ''show'',
             create_color = Some (Entry (gmail_color ''#ffc8af'' ''#ffffff''))\<rparr>])
   \<and> microsoft_createLabel (simulated_graph [] [] (graph_message ''m1'' []))
        ''Work'' (Some ''#123456'') []
      = (Inr \<lparr>label_id = ''c1'', label_name = ''Work'', label_color = None,
              label_type = Some ''user''\<rparr>,
         [PostMasterCategories ''Work'' (Entry ''preset20'')])"
  using createLabel_color
    [where col = "''#FF8801''" and label = "''Work''" and s = "[]"
       and cg = "simulated_gmail (gmail_record None ''hi'') (send_response None) []"
       and created = "\<lparr>gl_id = ''Label_1'', gl_name = ''Work'', gl_backgroundColor = None\<rparr>"
       and ?s1.0 = "[LabelsCreate
            \<lparr>create_name = ''Work'', labelListVisibility = ''labelShow'',
             messageListVisibility = ''show'',
             create_color = Some (Entry (gmail_color ''#ffc8af'' ''#ffffff''))\<rparr>]"
       and cm = "simulated_graph [] [] (graph_message ''m1'' [])" and t = "[]"
       and category = "graph_category ''c1'' ''Work''"
       and ?t1.0 = "[PostMasterCategories ''Work'' (Entry ''preset20'')]"]
    createLabel_color
    [where col = "''#123456''" and label = "''Work''" and s = "[]"
       and cg = "simulated_gmail (gmail_record None ''hi'') (send_response None) []"
       and created = "\<lparr>gl_id = ''Label_1'', gl_name = ''Work'', gl_backgroundColor = None\<rparr>"
       and ?s1.0 = "[LabelsCreate
            \<lparr>create_name = ''Work'', labelListVisibility = ''labelShow'',
             messageListVisibility = ''show'',
             create_color = Some (Entry (gmail_color ''#ffc8af'' ''#ffffff''))\<rparr>]"
       and cm = "simulated_graph [] [] (graph_message ''m1'' [])" and t = "[]"
       and category = "graph_category ''c1'' ''Work''"
       and ?t1.0 = "[PostMasterCategories ''Work'' (Entry ''preset20'')]"]
  by (simp add: sample_gmail_color sample_preset_color simulated_gmail_def
      simulated_graph_def graph_category_def)

text \<open>
  C8 as stated fails: the direct-protocol adapter's \<open>createLabel\<close> fails whatever the
  colour; the folder-native adapter passes the malformed string \<open>preset99\<close> through,
  which is no member of its palette, and converts the malformed string \<open>#0g0000\<close> to
  \<open>preset14\<close> and not to the default \<open>preset0\<close>; the label-organized adapter returns a
  member of \<open>Object.prototype\<close> for the string \<open>constructor\<close>.
\<close>

theorem createLabel_color_counterexample:
  "imap_createLabel ''Work'' (Some ''#123456'')
     = Inl (Classified (SuperMailError ''SuperMailError'' OPERATION_FAILED
         ''IMAP does not support creating custom labels. Use folders instead.''
         (Some ''imap'') None None))
   \<and> convertColorToPreset (Some ''preset99'') = Entry ''preset99''
   \<and> ''preset99'' \<notin> snd ` set colorMap
   \<and> convertColorToPreset (Some ''#0g0000'') = Entry ''preset14''
   \<and> convertToGmailColor ''constructor'' = PrototypeMember ''constructor''"
  by code_simp

section \<open>Properties of address parsing\<close>

lemma dropWhile_all_iff: "(\<forall>x \<in> set (dropWhile P xs). P x) \<longleftrightarrow> (\<forall>x \<in> set xs. P x)"
proof
  assume a: "\<forall>x \<in> set (dropWhile P xs). P x"
  have "dropWhile P xs = []"
  proof (rule ccontr)
    assume ne: "dropWhile P xs \<noteq> []"
    then have "\<not> P (hd (dropWhile P xs))" by (rule hd_dropWhile)
    moreover from ne have "hd (dropWhile P xs) \<in> set (dropWhile P xs)" by simp
    ultimately show False using a by blast
  qed
  then show "\<forall>x \<in> set xs. P x" by (simp add: dropWhile_eq_Nil_conv)
next
  assume "\<forall>x \<in> set xs. P x"
  then show "\<forall>x \<in> set (dropWhile P xs). P x" by (auto dest: set_dropWhileD)
qed

lemma trim_empty_iff: "trim s = [] \<longleftrightarrow> (\<forall>c \<in> set s. is_space c)"
proof -
  have "trim s = [] \<longleftrightarrow> (\<forall>x \<in> set (rev (dropWhile is_space s)). is_space x)"
    by (simp add: trim_def dropWhile_eq_Nil_conv)
  also have "\<dots> \<longleftrightarrow> (\<forall>c \<in> set s. is_space c)"
    by (simp add: dropWhile_all_iff)
  finally show ?thesis .
qed

lemma dropWhile_self: "xs = [] \<or> \<not> P (hd xs) \<Longrightarrow> dropWhile P xs = xs"
  by (cases xs) auto

lemma trim_idem: "trim (trim s) = trim s"
proof -
  define u where "u = dropWhile is_space s"
  define w where "w = dropWhile is_space (rev u)"
  have t: "trim s = rev w" by (simp add: trim_def u_def w_def)
  have u: "u = [] \<or> \<not> is_space (hd u)"
    unfolding u_def using hd_dropWhile [of is_space s] by blast
  have "rev u = takeWhile is_space (rev u) @ w" by (simp add: w_def)
  then have "u = rev w @ rev (takeWhile is_space (rev u))"
    by (metis rev_append rev_rev_ident)
  then have "rev w = [] \<or> hd (rev w) = hd u" by (metis hd_append2)
  moreover have "u = [] \<Longrightarrow> rev w = []" by (simp add: w_def)
  ultimately have "rev w = [] \<or> \<not> is_space (hd (rev w))" using u by auto
  then have "dropWhile is_space (rev w) = rev w" by (rule dropWhile_self)
  moreover have "dropWhile is_space w = w" by (simp add: w_def)
  ultimately show ?thesis by (simp add: t) (simp add: trim_def)
qed

lemma parseEmailAddress_empty_iff:
  assumes "parseEmailAddress (Some a) = Some x"
  shows "email x = [] \<longleftrightarrow>
         (case address_match [] a of
            None \<Rightarrow> \<forall>c \<in> set a. is_space c
          | Some (g1, g2) \<Rightarrow> \<forall>c \<in> set g2. is_space c)"
  using assms
  by (auto simp: parseEmailAddress_def trim_empty_iff split: if_splits option.splits)

lemma in_set_map_filter:
  "x \<in> set (List.map_filter f xs) \<longleftrightarrow> (\<exists>y \<in> set xs. f y = Some x)"
  by (induction xs) (auto simp: List.map_filter_simps split: option.splits)

lemma parseEmailAddresses_unstructured:
  assumes "x \<in> set (parseEmailAddresses h)" "name x = None"
  shows "email x \<noteq> []"
proof -
  from assms(1) obtain piece where p: "parseEmailAddress (Some (trim piece)) = Some x"
    by (auto simp: parseEmailAddresses_def in_set_map_filter split: option.splits if_splits)
  then have ne: "trim piece \<noteq> []" by (auto simp: parseEmailAddress_def)
  from p assms(2) have "email x = trim (trim piece)"
    by (auto simp: parseEmailAddress_def split: if_splits option.splits)
  with ne show ?thesis by (simp add: trim_idem)
qed


text \<open>
  C9, as amended.  A non-empty address string that is not of the form \<open>name <addr>\<close>
  degrades to \<open>{email: raw-string}\<close> with the trimmed raw text as the email, rather than
  to a failure.  The email that the label-organized adapter parses is empty exactly when
  the raw string (for the form \<open>name <addr>\<close>: the text between the angle brackets) is
  white space only; in the \<open>to\<close> and \<open>cc\<close> fields of a message it returns, every address
  without a name has a non-empty email.  The email that the folder-native adapter
  produces is empty exactly when the recipient, its \<open>emailAddress\<close> or its \<open>address\<close> is
  absent, or the address is the empty string.
\<close>

theorem address_parsing:
  "(a \<noteq> [] \<and> address_match [] a = None \<longrightarrow>
      parseEmailAddress (Some a) = Some \<lparr>email = trim a, name = None\<rparr>)
   \<and> (parseEmailAddress (Some a) = Some x \<longrightarrow>
      (email x = [] \<longleftrightarrow>
         (case address_match [] a of
            None \<Rightarrow> \<forall>c \<in> set a. is_space c
          | Some (g1, g2) \<Rightarrow> \<forall>c \<in> set g2. is_space c)))
   \<and> (\<forall>y \<in> set (msg_to (convertGmailMessage g)). name y = None \<longrightarrow> email y \<noteq> [])
   \<and> (\<forall>y \<in> set (case msg_cc (convertGmailMessage g) of None \<Rightarrow> [] | Some l \<Rightarrow> l).
         name y = None \<longrightarrow> email y \<noteq> [])
   \<and> (email (convertFromGraphRecipient r) = [] \<longleftrightarrow>
         (case r of
            None \<Rightarrow> True
          | Some q \<Rightarrow>
              (case emailAddress q of
                 None \<Rightarrow> True
               | Some e \<Rightarrow> address e = None \<or> address e = Some [])))"
proof (intro conjI impI ballI)
  assume "a \<noteq> [] \<and> address_match [] a = None"
  then show "parseEmailAddress (Some a) = Some \<lparr>email = trim a, name = None\<rparr>"
    by (simp add: parseEmailAddress_def)
next
  assume "parseEmailAddress (Some a) = Some x"
  then show "email x = [] \<longleftrightarrow>
         (case address_match [] a of
            None \<Rightarrow> \<forall>c \<in> set a. is_space c
          | Some (g1, g2) \<Rightarrow> \<forall>c \<in> set g2. is_space c)"
    by (rule parseEmailAddress_empty_iff)
next
  fix y assume "y \<in> set (msg_to (convertGmailMessage g))" "name y = None"
  then show "email y \<noteq> []"
    using parseEmailAddresses_unstructured by (simp add: convertGmailMessage_def Let_def)
next
  fix y
  assume "y \<in> set (case msg_cc (convertGmailMessage g) of None \<Rightarrow> [] | Some l \<Rightarrow> l)"
    "name y = None"
  then show "email y \<noteq> []"
    using parseEmailAddresses_unstructured by (simp add: convertGmailMessage_def Let_def)
next
  show "email (convertFromGraphRecipient r) = [] \<longleftrightarrow>
         (case r of
            None \<Rightarrow> True
          | Some q \<Rightarrow>
              (case emailAddress q of
                 None \<Rightarrow> True
               | Some e \<Rightarrow> address e = None \<or> address e = Some []))"
    by (auto simp: convertFromGraphRecipient_def split: option.splits)
qed

lemma sample_unstructured:
  "address_match [] ''ann at example'' = None"
  "parseEmailAddress (Some ''ann at example'') = Some \<lparr>email = ''ann at example'', name = None\<rparr>"
  "msg_to (convertGmailMessage
     \<lparr>gm_id = None, gm_threadId = None, gm_labelIds = None,
      gm_payload_headers =
        Some [\<lparr>header_name = Some ''To'', header_value = Some ''bob, Eve <eve@example.com>''\<rparr>]\<rparr>)
   = [\<lparr>email = ''bob'', name = None\<rparr>, \<lparr>email = ''eve@example.com'', name = Some ''Eve''\<rparr>]"
  by code_simp+

theorem address_parsing_witness:
  "parseEmailAddress (Some ''ann at example'')
     = Some \<lparr>email = ''ann at example'', name = None\<rparr>
   \<and> msg_to (convertGmailMessage
       \<lparr>gm_id = None, gm_threadId = None, gm_labelIds = None,
        gm_payload_headers =
          Some [\<lparr>header_name = Some ''To'',
                 header_value = Some ''bob, Eve <eve@example.com>''\<rparr>]\<rparr>)
     = [\<lparr>email = ''bob'', name = None\<rparr>, \<lparr>email = ''eve@example.com'', name = Some ''Eve''\<rparr>]
   \<and> email (convertFromGraphRecipient
       (Some \<lparr>emailAddress = Some \<lparr>address = Some ''ann@example.com'', ea_name = None\<rparr>\<rparr>))
     = ''ann@example.com''"
  using address_parsing
    [where a = "''ann at example''" and x = "\<lparr>email = ''ann at example'', name = None\<rparr>"
       and g = "\<lparr>gm_id = None, gm_threadId = None, gm_labelIds = None,
        gm_payload_headers =
          Some [\<lparr>header_name = Some ''To'',
                 header_value = Some ''bob, Eve <eve@example.com>''\<rparr>]\<rparr>"
       and r = "Some \<lparr>emailAddress = Some \<lparr>address = Some ''ann@example.com'', ea_name = None\<rparr>\<rparr>"]
  by (simp add: sample_unstructured convertFromGraphRecipient_def)

text \<open>
  C9 as stated fails: the address string \<open>Ann < >\<close> is parsed to an empty email, the
  folder-native adapter converts an absent recipient to an empty email, and so a message
  without a sender is returned by its \<open>getEmail\<close> with an empty \<open>from.email\<close>.
\<close>

theorem address_empty_counterexample:
  "parseEmailAddress (Some ''Ann < >'') = Some \<lparr>email = [], name = Some ''Ann''\<rparr>
   \<and> convertFromGraphRecipient None = \<lparr>email = [], name = None\<rparr>
   \<and> msg_from (convertGraphMessage (graph_message ''m1'' []))
       = Some \<lparr>email = [], name = None\<rparr>"
  by code_simp

end
